theory Spec2Isabelle
  imports Main "HOL-Library.AList"
begin

section \<open>Python values, data frames and errors\<close>

text \<open>
  The protocol class of \<^verbatim>\<open>biopsykit/protocols/base.py\<close> is dynamically typed: the value called
  \<^verbatim>\<open>data_dict\<close> is a nested dictionary at the start of a pipeline and a data frame at its
  end, and the entries of \<^verbatim>\<open>params\<close> are lists, dictionaries, strings or frames. The embedding
  therefore works on one type of Python values. Dictionaries are association lists in
  insertion order with string keys (all keys of the protocol are names: study parts, phases,
  subjects, saliva types, identifiers). A floating point number is a finite one, given by a
  mantissa and a binary exponent, an infinity with its sign, or not a number.

  A data frame is its index (the names of the index levels, and one tuple of labels for each
  row), the names of its columns, and an opaque payload for each row.
\<close>

datatype label = LStr string | LInt int

datatype pyfloat = Finite int int | Infinity bool | NaN

record 'c frame =
  index_names :: "string option list"
  columns :: "string list"
  rows :: "(label list \<times> 'c) list"

datatype 'c pyval =
    VNone
  | VBool bool
  | VInt int
  | VFloat pyfloat
  | VStr string
  | VList "'c pyval list"
  | VTuple "'c pyval list"
  | VDict "(string \<times> 'c pyval) list"
  | VFrame "'c frame"

type_synonym 'c pydict = "(string \<times> 'c pyval) list"

text \<open>
  Exceptions are values. \<open>ValidationError\<close> carries the identifying keys that its message
  names; \<open>External\<close> is any exception of a collaborator that the protocol class does not raise
  itself.
\<close>

datatype error =
    KeyError
  | AttributeError
  | IndexError
  | TypeError
  | ValueError
  | AssertionError
  | FileNotFoundError
  | JSONDecodeError
  | ValidationError "label list"
  | ConfigurationError
  | External string

text \<open>
  Sequencing of statements that may raise: the first exception ends the run.
\<close>

definition ebind :: "error + 'a \<Rightarrow> ('a \<Rightarrow> error + 'b) \<Rightarrow> error + 'b" where
  "ebind m f = (case m of Inl e \<Rightarrow> Inl e | Inr x \<Rightarrow> f x)"

text \<open>\<^verbatim>\<open>d[key]\<close> on a dictionary, \<^verbatim>\<open>d[key] = value\<close> and \<^verbatim>\<open>d.update(other)\<close>.\<close>

definition dict_getitem :: "(string \<times> 'v) list \<Rightarrow> string \<Rightarrow> error + 'v" where
  "dict_getitem d k = (case map_of d k of None \<Rightarrow> Inl KeyError | Some v \<Rightarrow> Inr v)"

definition dict_setitem :: "(string \<times> 'v) list \<Rightarrow> string \<Rightarrow> 'v \<Rightarrow> (string \<times> 'v) list" where
  "dict_setitem d k v = AList.update k v d"

fun dict_update :: "(string \<times> 'v) list \<Rightarrow> (string \<times> 'v) list \<Rightarrow> (string \<times> 'v) list" where
  "dict_update d [] = d"
| "dict_update d ((k, v) # kvs) = dict_update (dict_setitem d k v) kvs"

text \<open>
  \<^verbatim>\<open>params.get(key, default)\<close>: \<^verbatim>\<open>params\<close> is a dictionary or \<^verbatim>\<open>None\<close>, and \<^verbatim>\<open>None\<close> has no
  attribute \<^verbatim>\<open>get\<close>.
\<close>

definition params_get :: "'c pydict option \<Rightarrow> string \<Rightarrow> 'c pyval \<Rightarrow> error + 'c pyval" where
  "params_get params k dflt =
     (case params of
        None \<Rightarrow> Inl AttributeError
      | Some d \<Rightarrow> (case map_of d k of None \<Rightarrow> Inr dflt | Some v \<Rightarrow> Inr v))"

text \<open>
  \<^verbatim>\<open>x.copy()\<close>: dictionaries, lists and data frames have the method; the copy is a new container
  of the same values, which is the same value here.
\<close>

fun py_copy :: "'c pyval \<Rightarrow> error + 'c pyval" where
  "py_copy (VDict d) = Inr (VDict d)"
| "py_copy (VList xs) = Inr (VList xs)"
| "py_copy (VFrame f) = Inr (VFrame f)"
| "py_copy v = Inl AttributeError"

section \<open>The collaborators\<close>

text \<open>
  The transformers of \<^verbatim>\<open>biopsykit.utils.data_processing\<close>, the HRV function of
  \<^verbatim>\<open>EcgProcessor\<close>, the type guards of \<^verbatim>\<open>biopsykit.utils.datatype_helper\<close> and the helpers
  of \<^verbatim>\<open>biopsykit.protocols.utils\<close> are imported by \<^verbatim>\<open>base.py\<close> and are not part of the
  sources at hand. The protocol's operations take them as parameters, one field for each
  imported function, with the arguments of its call sites. Each of them either returns a value
  or raises.

  Modelled from the spec: the transformers of \<^verbatim>\<open>biopsykit.utils.data_processing\<close> are pure
  functions from the working data and a parameter to new working data; they receive borrowed
  references, return new structures and never mutate their argument. A field of the record
  is such a function: it has no access to the protocol object and cannot change a value.
\<close>

record 'c ext =
  resample_dict_sec :: "'c pyval \<Rightarrow> error + 'c pyval"
  normalize_to_phase :: "'c pyval \<Rightarrow> 'c pyval \<Rightarrow> error + 'c pyval"
  select_dict_phases :: "'c pyval \<Rightarrow> 'c pyval \<Rightarrow> error + 'c pyval"
  split_dict_into_subphases :: "'c pyval \<Rightarrow> 'c pyval \<Rightarrow> error + 'c pyval"
  mean_per_subject_dict :: "'c pyval \<Rightarrow> 'c pyval \<Rightarrow> string \<Rightarrow> error + 'c pyval"
  add_subject_conditions :: "'c pyval \<Rightarrow> 'c pyval \<Rightarrow> error + 'c pyval"
  rearrange_subject_data_dict :: "'c pyval \<Rightarrow> error + 'c pydict"
  cut_phases_to_shortest :: "'c pyval \<Rightarrow> error + 'c pyval"
  merge_study_data_dict :: "'c pyval \<Rightarrow> error + 'c pyval"
  split_subject_conditions :: "'c pyval \<Rightarrow> 'c pyval \<Rightarrow> error + 'c pyval"
  hrv_process :: "'c frame \<Rightarrow> 'c pydict \<Rightarrow> error + 'c frame"
  is_saliva_raw_dataframe :: "'c pyval \<Rightarrow> 'c pyval \<Rightarrow> bool"
  is_saliva_mean_se_dataframe :: "'c pyval \<Rightarrow> bool"
  u_get_sample_times :: "'c pydict \<Rightarrow> 'c pydict \<Rightarrow> 'c pyval \<Rightarrow> error + 'c pydict"
  u_check_sample_times_match :: "'c pyval \<Rightarrow> 'c pyval \<Rightarrow> error option"
  u_assert_file_extension :: "string \<Rightarrow> string \<Rightarrow> error option"

section \<open>The protocol object\<close>

text \<open>
  The attributes that \<^verbatim>\<open>BaseProtocol.__init__\<close> sets. The attribute \<^verbatim>\<open>structure\<close> is the field
  \<open>protocol_structure\<close>. A method of the class takes the object and returns the outcome of the
  call (\<open>None\<close> when it returned, \<open>Some e\<close> when it raised \<open>e\<close>) together with the object as the
  call left it.
\<close>

record 'c protocol =
  name :: "'c pyval"
  protocol_structure :: "'c pyval"
  saliva_types :: "'c pyval"
  test_times :: "'c pyval"
  sample_times :: "'c pydict"
  saliva_data :: "'c pydict"
  hr_data :: "'c pydict"
  rpeak_data :: "'c pydict"
  hr_results :: "'c pydict"
  hrv_results :: "'c pydict"
  hr_ensemble :: "'c pydict"
  saliva_plot_params :: "'c pyval"
  hr_mean_plot_params :: "'c pyval"
  hr_ensemble_plot_params :: "'c pyval"

type_synonym 'c outcome = "error option \<times> 'c protocol"

text \<open>\<^verbatim>\<open>BaseProtocol.__init__(name, structure, test_times, **kwargs)\<close>.\<close>

definition init_protocol :: "'c pyval \<Rightarrow> 'c pyval \<Rightarrow> 'c pyval \<Rightarrow> 'c pydict \<Rightarrow> 'c protocol" where
  "init_protocol nm struct tt kwargs =
     \<lparr> name = nm,
       protocol_structure = struct,
       saliva_types = VList [],
       test_times = (if tt = VNone then VList [VInt 0, VInt 0] else tt),
       sample_times = [],
       saliva_data = [],
       hr_data = [],
       rpeak_data = [],
       hr_results = [],
       hrv_results = [],
       hr_ensemble = [],
       saliva_plot_params = (case map_of kwargs ''saliva_plot_params'' of None \<Rightarrow> VDict [] | Some v \<Rightarrow> v),
       hr_mean_plot_params = (case map_of kwargs ''hr_mean_plot_params'' of None \<Rightarrow> VDict [] | Some v \<Rightarrow> v),
       hr_ensemble_plot_params =
         (case map_of kwargs ''hr_ensemble_plot_params'' of None \<Rightarrow> VDict [] | Some v \<Rightarrow> v) \<rparr>"

text \<open>\<^verbatim>\<open>if study_part is None: study_part = "Study"\<close>.\<close>

definition study_part_or_default :: "string option \<Rightarrow> string" where
  "study_part_or_default study_part = (case study_part of None \<Rightarrow> ''Study'' | Some s \<Rightarrow> s)"

section \<open>compute_hr_results\<close>

text \<open>
  The body of \<^verbatim>\<open>compute_hr_results\<close> up to its last statement: every statement either raises
  or rebinds \<^verbatim>\<open>data_dict\<close>; the object is not touched.
\<close>

definition hr_results_pipeline ::
  "'c ext \<Rightarrow> 'c protocol \<Rightarrow> string option \<Rightarrow> bool \<Rightarrow> bool \<Rightarrow> bool \<Rightarrow> bool \<Rightarrow> bool \<Rightarrow> bool \<Rightarrow>
   'c pydict option \<Rightarrow> error + 'c pyval" where
  "hr_results_pipeline E p study_part resample_sec normalize_to select_phases split_into_subphases
     mean_per_subject add_conditions params =
   ebind (dict_getitem (hr_data p) (study_part_or_default study_part)) (\<lambda>d0.
   ebind (py_copy d0) (\<lambda>d1.
   let params1 = (case params of None \<Rightarrow> Some [] | Some ps \<Rightarrow> Some ps) in
   ebind (if resample_sec then resample_dict_sec E d1 else Inr d1) (\<lambda>d2.
   ebind (if normalize_to then
            ebind (params_get params1 ''normalize_to'' VNone) (\<lambda>param.
            normalize_to_phase E d2 param)
          else Inr d2) (\<lambda>d3.
   ebind (if select_phases then
            ebind (params_get params1 ''select_phases'' VNone) (\<lambda>param.
            select_dict_phases E d3 param)
          else Inr d3) (\<lambda>d4.
   ebind (if split_into_subphases then
            ebind (params_get params1 ''split_into_subphases'' VNone) (\<lambda>param.
            split_dict_into_subphases E d4 param)
          else Inr d4) (\<lambda>d5.
   ebind (if mean_per_subject then
            ebind (params_get params1 ''mean_per_subject'' (VList [VStr ''subject'', VStr ''phase'']))
              (\<lambda>param. mean_per_subject_dict E d5 param ''Heart_Rate'')
          else Inr d5) (\<lambda>d6.
   (if add_conditions then
      ebind (params_get params1 ''add_conditions'' VNone) (\<lambda>param.
      add_subject_conditions E d6 param)
    else Inr d6))))))))"

text \<open>The method: the pipeline, then \<^verbatim>\<open>self.hr_results[result_id] = data_dict\<close>.\<close>

definition compute_hr_results ::
  "'c ext \<Rightarrow> 'c protocol \<Rightarrow> string \<Rightarrow> string option \<Rightarrow> bool \<Rightarrow> bool \<Rightarrow> bool \<Rightarrow> bool \<Rightarrow> bool \<Rightarrow> bool \<Rightarrow>
   'c pydict option \<Rightarrow> 'c outcome" where
  "compute_hr_results E p result_id study_part resample_sec normalize_to select_phases
     split_into_subphases mean_per_subject add_conditions params =
   (case hr_results_pipeline E p study_part resample_sec normalize_to select_phases
           split_into_subphases mean_per_subject add_conditions params of
      Inl e \<Rightarrow> (Some e, p)
    | Inr data_dict \<Rightarrow> (None, p\<lparr>hr_results := dict_setitem (hr_results p) result_id data_dict\<rparr>))"

text \<open>
  The pipeline as the specification words it: a fixed list of steps, each with its switch;
  an enabled step is applied to the working data, a disabled one passes it on unchanged, and
  the first step that raises ends the run.
\<close>

fun run_steps :: "(bool \<times> ('d \<Rightarrow> error + 'd)) list \<Rightarrow> 'd \<Rightarrow> error + 'd" where
  "run_steps [] d = Inr d"
| "run_steps ((enabled, step) # steps) d =
     ebind (if enabled then step d else Inr d) (run_steps steps)"

text \<open>
  Step number \<open>i\<close> of a list of steps raises \<open>e\<close>: it is switched on, the steps before it
  return, and on the data that they give it raises \<open>e\<close>.
\<close>

definition step_raises :: "(bool \<times> ('d \<Rightarrow> error + 'd)) list \<Rightarrow> 'd \<Rightarrow> nat \<Rightarrow> error \<Rightarrow> bool" where
  "step_raises steps d i e =
     (i < length steps \<and> fst (steps ! i) \<and>
      (case run_steps (take i steps) d of
         Inl _ \<Rightarrow> False
       | Inr d' \<Rightarrow> snd (steps ! i) d' = Inl e))"

definition param_or :: "'c pydict \<Rightarrow> string \<Rightarrow> 'c pyval \<Rightarrow> 'c pyval" where
  "param_or ps k dflt = (case map_of ps k of None \<Rightarrow> dflt | Some v \<Rightarrow> v)"

definition hr_results_steps ::
  "'c ext \<Rightarrow> bool \<Rightarrow> bool \<Rightarrow> bool \<Rightarrow> bool \<Rightarrow> bool \<Rightarrow> bool \<Rightarrow> 'c pydict \<Rightarrow>
   (bool \<times> ('c pyval \<Rightarrow> error + 'c pyval)) list" where
  "hr_results_steps E resample_sec normalize_to select_phases split_into_subphases mean_per_subject
     add_conditions ps =
   [ (resample_sec, resample_dict_sec E),
     (normalize_to, \<lambda>d. normalize_to_phase E d (param_or ps ''normalize_to'' VNone)),
     (select_phases, \<lambda>d. select_dict_phases E d (param_or ps ''select_phases'' VNone)),
     (split_into_subphases,
        \<lambda>d. split_dict_into_subphases E d (param_or ps ''split_into_subphases'' VNone)),
     (mean_per_subject,
        \<lambda>d. mean_per_subject_dict E d
               (param_or ps ''mean_per_subject'' (VList [VStr ''subject'', VStr ''phase'']))
               ''Heart_Rate''),
     (add_conditions, \<lambda>d. add_subject_conditions E d (param_or ps ''add_conditions'' VNone)) ]"

section \<open>compute_hr_ensemble\<close>

text \<open>
  Iterating over a value (\<^verbatim>\<open>for phase in param\<close>): a list or tuple gives its elements, a
  dictionary its keys, a string its characters, a frame its column names; \<^verbatim>\<open>None\<close>, a truth
  value and an integer are not iterable.
\<close>

fun py_iter :: "'c pyval \<Rightarrow> error + 'c pyval list" where
  "py_iter (VList xs) = Inr xs"
| "py_iter (VTuple xs) = Inr xs"
| "py_iter (VDict kvs) = Inr (map (\<lambda>kv. VStr (fst kv)) kvs)"
| "py_iter (VStr s) = Inr (map (\<lambda>c. VStr [c]) s)"
| "py_iter (VFrame f) = Inr (map VStr (columns f))"
| "py_iter v = Inl TypeError"

text \<open>
  A key of a dictionary lookup has to be hashable: lists, dictionaries and frames are not, a
  tuple is when its elements are.
\<close>

fun hashable :: "'c pyval \<Rightarrow> bool" where
  "hashable (VTuple xs) = list_all hashable xs"
| "hashable (VList xs) = False"
| "hashable (VDict kvs) = False"
| "hashable (VFrame f) = False"
| "hashable v = True"

text \<open>
  \<^verbatim>\<open>{phase: data_dict[phase] for phase in param}\<close>: the keys of \<^verbatim>\<open>data_dict\<close> are strings, so
  the lookup of any other hashable key raises \<^verbatim>\<open>KeyError\<close>.
\<close>

fun select_comprehension :: "'c pydict \<Rightarrow> 'c pyval list \<Rightarrow> 'c pydict \<Rightarrow> error + 'c pydict" where
  "select_comprehension data_dict [] acc = Inr acc"
| "select_comprehension data_dict (phase # rest) acc =
     (case phase of
        VStr k \<Rightarrow>
          ebind (dict_getitem data_dict k) (\<lambda>v.
          select_comprehension data_dict rest (dict_setitem acc k v))
      | _ \<Rightarrow> if hashable phase then Inl KeyError else Inl TypeError)"

text \<open>\<^verbatim>\<open>data_dict.keys()\<close>, as the value that iterating over it gives.\<close>

definition dict_keys :: "'c pydict \<Rightarrow> 'c pyval" where
  "dict_keys d = VList (map (\<lambda>kv. VStr (fst kv)) d)"

text \<open>
  The phase selection of \<^verbatim>\<open>compute_hr_ensemble\<close> (lines 688 to 690), on the dictionary that
  \<^verbatim>\<open>rearrange_subject_data_dict\<close> returned.
\<close>

definition ensemble_select_phases :: "'c pydict option \<Rightarrow> 'c pydict \<Rightarrow> error + 'c pydict" where
  "ensemble_select_phases params data_dict =
     ebind (params_get params ''select_phases'' (dict_keys data_dict)) (\<lambda>param.
     ebind (py_iter param) (\<lambda>phases.
     select_comprehension data_dict phases []))"

text \<open>
  The body of \<^verbatim>\<open>compute_hr_ensemble\<close> up to its last statement. Unlike the two other
  \<^verbatim>\<open>compute\<close> methods it has no statement \<^verbatim>\<open>if params is None: params = {}\<close>.
\<close>

definition hr_ensemble_pipeline ::
  "'c ext \<Rightarrow> 'c protocol \<Rightarrow> string option \<Rightarrow> bool \<Rightarrow> bool \<Rightarrow> bool \<Rightarrow> bool \<Rightarrow> bool \<Rightarrow> bool \<Rightarrow>
   'c pydict option \<Rightarrow> error + 'c pyval" where
  "hr_ensemble_pipeline E p study_part resample_sec normalize_to select_phases cut_phases merge_dict
     add_conditions params =
   ebind (dict_getitem (hr_data p) (study_part_or_default study_part)) (\<lambda>d0.
   ebind (py_copy d0) (\<lambda>d1.
   ebind (if resample_sec then resample_dict_sec E d1 else Inr d1) (\<lambda>d2.
   ebind (if normalize_to then
            ebind (params_get params ''normalize_to'' VNone) (\<lambda>param.
            normalize_to_phase E d2 param)
          else Inr d2) (\<lambda>d3.
   ebind (rearrange_subject_data_dict E d3) (\<lambda>d4.
   ebind (if select_phases then ensemble_select_phases params d4 else Inr d4) (\<lambda>d5.
   ebind (if cut_phases then cut_phases_to_shortest E (VDict d5) else Inr (VDict d5)) (\<lambda>d6.
   ebind (if merge_dict then merge_study_data_dict E d6 else Inr d6) (\<lambda>d7.
   (if add_conditions then
      ebind (params_get params ''add_conditions'' VNone) (\<lambda>param.
      split_subject_conditions E d7 param)
    else Inr d7)))))))))"

text \<open>The method: the pipeline, then \<^verbatim>\<open>self.hr_ensemble[ensemble_id] = data_dict\<close>.\<close>

definition compute_hr_ensemble ::
  "'c ext \<Rightarrow> 'c protocol \<Rightarrow> string \<Rightarrow> string option \<Rightarrow> bool \<Rightarrow> bool \<Rightarrow> bool \<Rightarrow> bool \<Rightarrow> bool \<Rightarrow> bool \<Rightarrow>
   'c pydict option \<Rightarrow> 'c outcome" where
  "compute_hr_ensemble E p ensemble_id study_part resample_sec normalize_to select_phases cut_phases
     merge_dict add_conditions params =
   (case hr_ensemble_pipeline E p study_part resample_sec normalize_to select_phases cut_phases
           merge_dict add_conditions params of
      Inl e \<Rightarrow> (Some e, p)
    | Inr data_dict \<Rightarrow> (None, p\<lparr>hr_ensemble := dict_setitem (hr_ensemble p) ensemble_id data_dict\<rparr>))"

text \<open>
  The statements of \<^verbatim>\<open>compute_hr_ensemble\<close> between the copy and the assignment (lines 679 to
  700), one for each step, as the method has them: a step with a parameter reads it with
  \<^verbatim>\<open>params.get\<close> first, and the selection is the one of lines 688 to 690. The steps work on
  one type of data, so the rearrangement wraps its dictionary and the selection unwraps it.
\<close>

definition hr_ensemble_statements ::
  "'c ext \<Rightarrow> bool \<Rightarrow> bool \<Rightarrow> bool \<Rightarrow> bool \<Rightarrow> bool \<Rightarrow> bool \<Rightarrow> 'c pydict option \<Rightarrow>
   (bool \<times> ('c pyval \<Rightarrow> error + 'c pyval)) list" where
  "hr_ensemble_statements E resample_sec normalize_to select_phases cut_phases merge_dict
     add_conditions params =
   [ (resample_sec, resample_dict_sec E),
     (normalize_to,
        \<lambda>d. ebind (params_get params ''normalize_to'' VNone) (\<lambda>param. normalize_to_phase E d param)),
     (True, \<lambda>d. ebind (rearrange_subject_data_dict E d) (\<lambda>r. Inr (VDict r))),
     (select_phases,
        \<lambda>d. (case d of
                VDict phases \<Rightarrow> ebind (ensemble_select_phases params phases) (\<lambda>r. Inr (VDict r))
              | _ \<Rightarrow> Inl AttributeError)),
     (cut_phases, cut_phases_to_shortest E),
     (merge_dict, merge_study_data_dict E),
     (add_conditions,
        \<lambda>d. ebind (params_get params ''add_conditions'' VNone) (\<lambda>param.
             split_subject_conditions E d param)) ]"

text \<open>
  The phase selection as the specification words it (\<^verbatim>\<open>select_phases(names)\<close>, section 4.2):
  it retains only the named phases, in the order of the names, and an unknown name is an
  error.
\<close>

definition spec_select_phases :: "string list \<Rightarrow> 'c pydict \<Rightarrow> error + 'c pydict" where
  "spec_select_phases names phases =
     (case those (map (\<lambda>n. map_option (Pair n) (map_of phases n)) names) of
        None \<Rightarrow> Inl KeyError
      | Some selected \<Rightarrow> Inr selected)"

text \<open>
  The parameters of the steps, as the specification has them: a step reads its parameter from
  the parameter dictionary, where a missing dictionary or entry gives the default, and the
  phases to select are a list of names; no entry means all phases.
\<close>

definition param_of :: "'c pydict option \<Rightarrow> string \<Rightarrow> 'c pyval \<Rightarrow> 'c pyval" where
  "param_of params k dflt = (case params of None \<Rightarrow> dflt | Some ps \<Rightarrow> param_or ps k dflt)"

definition name_of :: "'c pyval \<Rightarrow> string option" where
  "name_of v = (case v of VStr s \<Rightarrow> Some s | _ \<Rightarrow> None)"

definition names_of_param :: "'c pyval \<Rightarrow> string list option" where
  "names_of_param v =
     (case v of
        VList xs \<Rightarrow> those (map name_of xs)
      | VTuple xs \<Rightarrow> those (map name_of xs)
      | _ \<Rightarrow> None)"

definition selected_names :: "'c pydict option \<Rightarrow> string list option" where
  "selected_names params =
     (case params of
        None \<Rightarrow> None
      | Some ps \<Rightarrow> (case map_of ps ''select_phases'' of None \<Rightarrow> None | Some v \<Rightarrow> names_of_param v))"

text \<open>
  Suitable parameters of \<^verbatim>\<open>compute_hr_ensemble\<close>: a parameter dictionary is given whenever a
  step that reads it is switched on, and the phases to select, when the selection is on and
  they are given, are a list or tuple of distinct names.
\<close>

definition suitable_params :: "bool \<Rightarrow> bool \<Rightarrow> bool \<Rightarrow> 'c pydict option \<Rightarrow> bool" where
  "suitable_params normalize_to select_phases add_conditions params =
     (case params of
        None \<Rightarrow> \<not> normalize_to \<and> \<not> select_phases \<and> \<not> add_conditions
      | Some ps \<Rightarrow>
          (\<not> select_phases \<or>
           (case map_of ps ''select_phases'' of
              None \<Rightarrow> True
            | Some v \<Rightarrow> (case names_of_param v of None \<Rightarrow> False | Some names \<Rightarrow> distinct names))))"

text \<open>
  The ensemble pipeline as the specification words it: seven steps in a fixed order, the
  rearrangement always switched on, the selection being \<open>spec_select_phases\<close>. The steps work on
  one type of data, so the rearrangement wraps its dictionary and the selection unwraps it;
  the rearrangement returns nothing but a dictionary.
\<close>

definition hr_ensemble_steps ::
  "'c ext \<Rightarrow> bool \<Rightarrow> bool \<Rightarrow> bool \<Rightarrow> bool \<Rightarrow> bool \<Rightarrow> bool \<Rightarrow> 'c pydict option \<Rightarrow>
   (bool \<times> ('c pyval \<Rightarrow> error + 'c pyval)) list" where
  "hr_ensemble_steps E resample_sec normalize_to select_phases cut_phases merge_dict add_conditions
     params =
   [ (resample_sec, resample_dict_sec E),
     (normalize_to, \<lambda>d. normalize_to_phase E d (param_of params ''normalize_to'' VNone)),
     (True, \<lambda>d. ebind (rearrange_subject_data_dict E d) (\<lambda>r. Inr (VDict r))),
     (select_phases,
        \<lambda>d. (case d of
                VDict phases \<Rightarrow>
                  (case selected_names params of
                     None \<Rightarrow> Inr d
                   | Some names \<Rightarrow> ebind (spec_select_phases names phases) (\<lambda>r. Inr (VDict r)))
              | _ \<Rightarrow> Inl AttributeError)),
     (cut_phases, cut_phases_to_shortest E),
     (merge_dict, merge_study_data_dict E),
     (add_conditions, \<lambda>d. split_subject_conditions E d (param_of params ''add_conditions'' VNone)) ]"

section \<open>compute_hrv_results\<close>

text \<open>
  The two operations of the data frame library that the method uses.

  \<^verbatim>\<open>pd.concat(result_dict, names=[name])\<close> on a dictionary of frames stacks the frames and puts
  the dictionary keys in front of the index as a new outermost level with the given name. It
  raises \<^verbatim>\<open>ValueError\<close> on an empty dictionary and refuses frames whose indexes differ in their
  number of levels. When all frames have the same index, the inner levels keep the names of
  the first frame; otherwise an inner level keeps its name when all frames agree on it and is
  unnamed when they do not. The columns are the union of the columns in order of appearance.
\<close>

fun unanimous :: "string option list \<Rightarrow> string option list \<Rightarrow> string option list" where
  "unanimous (a # as) (b # bs) = (if a = b then a else None) # unanimous as bs"
| "unanimous as bs = []"

definition ordered_union :: "string list \<Rightarrow> string list \<Rightarrow> string list" where
  "ordered_union xs ys = xs @ filter (\<lambda>y. y \<notin> set xs) (remdups ys)"

definition with_key :: "string \<Rightarrow> 'c frame \<Rightarrow> (label list \<times> 'c) list" where
  "with_key k f = map (\<lambda>r. (LStr k # fst r, snd r)) (rows f)"

definition inner_level_names :: "'c frame \<Rightarrow> 'c frame list \<Rightarrow> string option list" where
  "inner_level_names f others =
     (if list_all (\<lambda>g. map fst (rows g) = map fst (rows f)) others then index_names f
      else foldl unanimous (index_names f) (map index_names others))"

definition pd_concat :: "(string \<times> 'c frame) list \<Rightarrow> string \<Rightarrow> error + 'c frame" where
  "pd_concat result_dict level_name =
     (case result_dict of
        [] \<Rightarrow> Inl ValueError
      | (k, f) # rest \<Rightarrow>
          if list_all (\<lambda>kg. length (index_names (snd kg)) = length (index_names f)) rest
          then Inr \<lparr> index_names = Some level_name # inner_level_names f (map snd rest),
                     columns = foldl ordered_union (columns f) (map (\<lambda>kg. columns (snd kg)) rest),
                     rows = concat (map (\<lambda>kg. with_key (fst kg) (snd kg)) result_dict) \<rparr>
          else Inl AssertionError)"

text \<open>
  \<^verbatim>\<open>frame.droplevel(level=-1)\<close> removes the innermost index level; an index keeps at least one
  level, so on a single level it raises \<^verbatim>\<open>ValueError\<close>.
\<close>

definition droplevel_last :: "'c frame \<Rightarrow> error + 'c frame" where
  "droplevel_last f =
     (if length (index_names f) \<le> 1 then Inl ValueError
      else Inr (f\<lparr> index_names := butlast (index_names f),
                   rows := map (\<lambda>r. (butlast (fst r), snd r)) (rows f) \<rparr>))"

text \<open>
  \<^verbatim>\<open>_compute_hrv_dict\<close> (lines 594 to 606; a name cannot begin with an underscore here). The
  loop over the items is \<open>hrv_items\<close>, its body \<open>hrv_item\<close>:
  \<^verbatim>\<open>_assert_is_dtype(value, (dict, pd.DataFrame))\<close> lets dictionaries and frames pass and raises
  a \<^verbatim>\<open>ValidationError\<close> on every other value; a dictionary is a recursive call with
  \<^verbatim>\<open>dict_levels[1:]\<close>, a frame a call of the HRV function. After the loop \<^verbatim>\<open>dict_levels[0]\<close> is
  read, which raises \<^verbatim>\<open>IndexError\<close> on an empty list, and the results are concatenated. The
  keys of a dictionary are distinct, so \<^verbatim>\<open>result_dict\<close> has the items in the order of the loop.
\<close>

function u_compute_hrv_dict :: "'c ext \<Rightarrow> 'c pydict \<Rightarrow> 'c pydict \<Rightarrow> string list \<Rightarrow> error + 'c frame"
and hrv_items :: "'c ext \<Rightarrow> 'c pydict \<Rightarrow> 'c pydict \<Rightarrow> string list \<Rightarrow> error + (string \<times> 'c frame) list"
and hrv_item :: "'c ext \<Rightarrow> 'c pyval \<Rightarrow> 'c pydict \<Rightarrow> string list \<Rightarrow> error + 'c frame" where
  "u_compute_hrv_dict E rpeak_dict hrv_params dict_levels =
     ebind (hrv_items E rpeak_dict hrv_params dict_levels) (\<lambda>result_dict.
     (case dict_levels of
        [] \<Rightarrow> Inl IndexError
      | level # _ \<Rightarrow> pd_concat result_dict level))"
| "hrv_items E [] hrv_params dict_levels = Inr []"
| "hrv_items E ((key, v) # rest) hrv_params dict_levels =
     ebind (hrv_item E v hrv_params dict_levels) (\<lambda>r.
     ebind (hrv_items E rest hrv_params dict_levels) (\<lambda>rs.
     Inr ((key, r) # rs)))"
| "hrv_item E v hrv_params dict_levels =
     (case v of
        VDict d \<Rightarrow> u_compute_hrv_dict E d hrv_params (tl dict_levels)
      | VFrame f \<Rightarrow> hrv_process E f hrv_params
      | _ \<Rightarrow> Inl (ValidationError []))"
  by pat_completeness auto
termination
  by (relation "measure (\<lambda>x. case x of
          Inl (E, d, hp, lv) \<Rightarrow> 2 * size_list (size_prod (\<lambda>k. 0) size) d + 1
        | Inr (Inl (E, d, hp, lv)) \<Rightarrow> 2 * size_list (size_prod (\<lambda>k. 0) size) d
        | Inr (Inr (E, v, hp, lv)) \<Rightarrow> 2 * size v)") auto

text \<open>
  The call \<^verbatim>\<open>self._compute_hrv_dict(data_dict, hrv_params, dict_levels)\<close> on the working data,
  which is whatever the steps before it left: a dictionary is the case above. The items of a
  frame are its columns, none of which is a dictionary or a frame, so the assertion raises on
  the first one, and a frame without columns behaves as an empty dictionary. Every other value
  has no method \<^verbatim>\<open>items\<close>.
\<close>

fun compute_hrv_dict_on :: "'c ext \<Rightarrow> 'c pyval \<Rightarrow> 'c pydict \<Rightarrow> string list \<Rightarrow> error + 'c frame" where
  "compute_hrv_dict_on E (VDict d) hrv_params dict_levels = u_compute_hrv_dict E d hrv_params dict_levels"
| "compute_hrv_dict_on E (VFrame f) hrv_params dict_levels =
     (if columns f = [] then u_compute_hrv_dict E [] hrv_params dict_levels
      else Inl (ValidationError []))"
| "compute_hrv_dict_on E v hrv_params dict_levels = Inl AttributeError"

text \<open>
  \<^verbatim>\<open>dict_levels\<close> of \<^verbatim>\<open>compute_hrv_results\<close>: the default is built from the switch
  \<^verbatim>\<open>split_into_subphases\<close>.
\<close>

definition default_dict_levels :: "string list option \<Rightarrow> bool \<Rightarrow> string list" where
  "default_dict_levels dict_levels split_into_subphases =
     (case dict_levels of
        None \<Rightarrow> [''subject'', ''phase''] @ (if split_into_subphases then [''subphase''] else [])
      | Some levels \<Rightarrow> levels)"

text \<open>
  The body of \<^verbatim>\<open>compute_hrv_results\<close> in three parts: the working data that reaches the HRV
  computation (lines 570 to 583), the HRV computation with the level drop (lines 585 to 587),
  and the rest up to the last statement. The value that \<^verbatim>\<open>add_subject_conditions\<close> gets is a
  frame.
\<close>

definition hrv_working_data ::
  "'c ext \<Rightarrow> 'c protocol \<Rightarrow> string option \<Rightarrow> bool \<Rightarrow> bool \<Rightarrow> 'c pydict option \<Rightarrow> error + 'c pyval" where
  "hrv_working_data E p study_part select_phases split_into_subphases params =
   ebind (dict_getitem (rpeak_data p) (study_part_or_default study_part)) (\<lambda>d0.
   ebind (py_copy d0) (\<lambda>d1.
   let params1 = (case params of None \<Rightarrow> Some [] | Some ps \<Rightarrow> Some ps) in
   ebind (if select_phases then
            ebind (params_get params1 ''select_phases'' VNone) (\<lambda>param.
            select_dict_phases E d1 param)
          else Inr d1) (\<lambda>d2.
   (if split_into_subphases then
      ebind (params_get params1 ''split_into_subphases'' VNone) (\<lambda>param.
      split_dict_into_subphases E d2 param)
    else Inr d2))))"

definition hrv_dropped ::
  "'c ext \<Rightarrow> 'c protocol \<Rightarrow> string option \<Rightarrow> bool \<Rightarrow> bool \<Rightarrow> string list option \<Rightarrow>
   'c pydict option \<Rightarrow> 'c pydict option \<Rightarrow> error + 'c frame" where
  "hrv_dropped E p study_part select_phases split_into_subphases dict_levels hrv_params params =
   ebind (hrv_working_data E p study_part select_phases split_into_subphases params) (\<lambda>data_dict.
   ebind (compute_hrv_dict_on E data_dict (case hrv_params of None \<Rightarrow> [] | Some hp \<Rightarrow> hp)
            (default_dict_levels dict_levels split_into_subphases)) (\<lambda>hrv_result.
   droplevel_last hrv_result))"

definition hrv_results_pipeline ::
  "'c ext \<Rightarrow> 'c protocol \<Rightarrow> string option \<Rightarrow> bool \<Rightarrow> bool \<Rightarrow> bool \<Rightarrow> string list option \<Rightarrow>
   'c pydict option \<Rightarrow> 'c pydict option \<Rightarrow> error + 'c pyval" where
  "hrv_results_pipeline E p study_part select_phases split_into_subphases add_conditions dict_levels
     hrv_params params =
   ebind (hrv_dropped E p study_part select_phases split_into_subphases dict_levels hrv_params params)
     (\<lambda>hrv_result.
   (if add_conditions then
      ebind (params_get (case params of None \<Rightarrow> Some [] | Some ps \<Rightarrow> Some ps) ''add_conditions'' VNone)
        (\<lambda>param. add_subject_conditions E (VFrame hrv_result) param)
    else Inr (VFrame hrv_result)))"

text \<open>The method: the pipeline, then \<^verbatim>\<open>self.hrv_results[result_id] = hrv_result\<close>.\<close>

definition compute_hrv_results ::
  "'c ext \<Rightarrow> 'c protocol \<Rightarrow> string \<Rightarrow> string option \<Rightarrow> bool \<Rightarrow> bool \<Rightarrow> bool \<Rightarrow> string list option \<Rightarrow>
   'c pydict option \<Rightarrow> 'c pydict option \<Rightarrow> 'c outcome" where
  "compute_hrv_results E p result_id study_part select_phases split_into_subphases add_conditions
     dict_levels hrv_params params =
   (case hrv_results_pipeline E p study_part select_phases split_into_subphases add_conditions
           dict_levels hrv_params params of
      Inl e \<Rightarrow> (Some e, p)
    | Inr hrv_result \<Rightarrow> (None, p\<lparr>hrv_results := dict_setitem (hrv_results p) result_id hrv_result\<rparr>))"

text \<open>
  The HRV pipeline as the specification words it: select phases, split into subphases, the
  recursive HRV computation, the drop of the innermost index level, add conditions; the two
  steps in the middle are always on.
\<close>

definition hrv_results_steps ::
  "'c ext \<Rightarrow> bool \<Rightarrow> bool \<Rightarrow> bool \<Rightarrow> string list \<Rightarrow> 'c pydict \<Rightarrow> 'c pydict option \<Rightarrow>
   (bool \<times> ('c pyval \<Rightarrow> error + 'c pyval)) list" where
  "hrv_results_steps E select_phases split_into_subphases add_conditions levels hrv_params params =
   [ (select_phases, \<lambda>d. select_dict_phases E d (param_of params ''select_phases'' VNone)),
     (split_into_subphases,
        \<lambda>d. split_dict_into_subphases E d (param_of params ''split_into_subphases'' VNone)),
     (True, \<lambda>d. ebind (compute_hrv_dict_on E d hrv_params levels) (\<lambda>f. Inr (VFrame f))),
     (True, \<lambda>d. (case d of
                   VFrame f \<Rightarrow> ebind (droplevel_last f) (\<lambda>g. Inr (VFrame g))
                 | _ \<Rightarrow> Inl AttributeError)),
     (add_conditions, \<lambda>d. add_subject_conditions E d (param_of params ''add_conditions'' VNone)) ]"

text \<open>
  The nesting depth of a dictionary of R peaks: \<open>uniform_depth n v\<close> holds when \<open>v\<close> is \<open>n\<close>
  levels of non-empty dictionaries above frames, so a dictionary from subjects to phases to
  frames has depth 2.
\<close>

fun uniform_depth :: "nat \<Rightarrow> 'c pyval \<Rightarrow> bool" where
  "uniform_depth 0 v = (case v of VFrame f \<Rightarrow> True | _ \<Rightarrow> False)"
| "uniform_depth (Suc n) v =
     (case v of VDict d \<Rightarrow> d \<noteq> [] \<and> list_all (\<lambda>kv. uniform_depth n (snd kv)) d | _ \<Rightarrow> False)"

text \<open>
  The leaves of a nested dictionary: the frames that the HRV function is called on.
\<close>

function leaf_frames :: "'c pyval \<Rightarrow> 'c frame list"
and leaf_frames_items :: "'c pydict \<Rightarrow> 'c frame list" where
  "leaf_frames v =
     (case v of
        VFrame f \<Rightarrow> [f]
      | VDict d \<Rightarrow> leaf_frames_items d
      | _ \<Rightarrow> [])"
| "leaf_frames_items [] = []"
| "leaf_frames_items ((k, v) # rest) = leaf_frames v @ leaf_frames_items rest"
  by pat_completeness auto
termination
  by (relation "measure (\<lambda>x. case x of
          Inl v \<Rightarrow> 2 * size v
        | Inr d \<Rightarrow> 2 * size_list (size_prod (\<lambda>k. 0) size) d + 1)") auto

section \<open>add_saliva_data\<close>

text \<open>
  \<^verbatim>\<open>{key: value for key in self.saliva_types}\<close> (lines 359 and 361). The saliva types are
  documented as a string or a sequence of strings, and the dictionaries of the embedding have
  string keys: a sequence with an element that is hashable and not a string builds a
  dictionary that the embedding has no value for, which is the outcome
  \<open>External ''Unmodelled''\<close>.
\<close>

fun for_each_type :: "'c pyval list \<Rightarrow> 'c pyval \<Rightarrow> 'c pydict \<Rightarrow> error + 'c pydict" where
  "for_each_type [] v acc = Inr acc"
| "for_each_type (key # rest) v acc =
     (case key of
        VStr k \<Rightarrow> for_each_type rest v (dict_setitem acc k v)
      | _ \<Rightarrow> if hashable key then Inl (External ''Unmodelled'') else Inl TypeError)"

text \<open>
  \<^verbatim>\<open>x if isinstance(x, dict) else {key: x for key in self.saliva_types}\<close>, for the two arguments
  \<^verbatim>\<open>sample_times\<close> and \<^verbatim>\<open>saliva_data\<close>.
\<close>

definition per_saliva_type :: "'c pyval \<Rightarrow> 'c pyval \<Rightarrow> error + 'c pydict" where
  "per_saliva_type types x =
     (case x of
        VDict d \<Rightarrow> Inr d
      | _ \<Rightarrow> ebind (py_iter types) (\<lambda>keys. for_each_type keys x []))"

text \<open>
  Lines 348 to 351: the saliva types are the keys of a dictionary of saliva data, a single
  string becomes a list of one string.
\<close>

definition saliva_type_list :: "'c pyval \<Rightarrow> 'c pyval \<Rightarrow> 'c pyval" where
  "saliva_type_list data saliva_type =
     (let saliva_type1 = (case data of VDict d \<Rightarrow> dict_keys d | _ \<Rightarrow> saliva_type)
      in case saliva_type1 of VStr s \<Rightarrow> VList [VStr s] | _ \<Rightarrow> saliva_type1)"

text \<open>
  \<^verbatim>\<open>sample_times[key]\<close> with a string key, on the values that the annotation of
  \<^verbatim>\<open>_add_saliva_data\<close> names (a sequence or a dictionary): a dictionary looks the key up, a
  sequence takes integers only. \<^verbatim>\<open>None\<close>, truth values and integers are not subscriptable. A
  frame would return a column, for which the embedding has no value.
\<close>

fun getitem_str :: "'c pyval \<Rightarrow> string \<Rightarrow> error + 'c pyval" where
  "getitem_str (VDict d) k = dict_getitem d k"
| "getitem_str (VFrame f) k = (if k \<in> set (columns f) then Inl (External ''Unmodelled'') else Inl KeyError)"
| "getitem_str v k = Inl TypeError"

text \<open>
  \<^verbatim>\<open>_add_saliva_data\<close> (lines 365 to 388). On a dictionary it calls itself on every value, with
  the key as saliva type and \<^verbatim>\<open>sample_times[key]\<close> as sample times, and returns the dictionary
  of the results. On any other value the two type guards are asked first without and, when
  both say no, again with exceptions; a guard that says no without exceptions raises a
  \<^verbatim>\<open>ValidationError\<close> with them, which the method wraps into its own \<^verbatim>\<open>ValidationError\<close>. Then
  \<^verbatim>\<open>_check_sample_times_match\<close> may raise, and the data are returned as they are.
\<close>

function u_add_saliva_data :: "'c ext \<Rightarrow> 'c pyval \<Rightarrow> 'c pyval \<Rightarrow> 'c pyval \<Rightarrow> error + 'c pyval"
and add_saliva_items :: "'c ext \<Rightarrow> 'c pydict \<Rightarrow> 'c pyval \<Rightarrow> 'c pydict \<Rightarrow> error + 'c pydict" where
  "u_add_saliva_data E data saliva_type stimes =
     (case data of
        VDict d \<Rightarrow> ebind (add_saliva_items E d stimes []) (\<lambda>added. Inr (VDict added))
      | _ \<Rightarrow>
          if \<not> (is_saliva_mean_se_dataframe E data \<or> is_saliva_raw_dataframe E data saliva_type)
          then Inl (ValidationError [])
          else (case u_check_sample_times_match E data stimes of
                  Some e \<Rightarrow> Inl e
                | None \<Rightarrow> Inr data))"
| "add_saliva_items E [] stimes acc = Inr acc"
| "add_saliva_items E ((key, v) # rest) stimes acc =
     ebind (getitem_str stimes key) (\<lambda>stimes_of_key.
     ebind (u_add_saliva_data E v (VStr key) stimes_of_key) (\<lambda>r.
     add_saliva_items E rest stimes (dict_setitem acc key r)))"
  by pat_completeness auto
termination
  by (relation "measure (\<lambda>x. case x of
          Inl (E, data, ty, st) \<Rightarrow> 2 * size data
        | Inr (E, d, st, acc) \<Rightarrow> 2 * size_list (size_prod (\<lambda>k. 0) size) d + 1)") auto

text \<open>
  \<^verbatim>\<open>add_saliva_data\<close> (lines 348 to 363); its arguments \<^verbatim>\<open>saliva_data\<close>, \<^verbatim>\<open>sample_times\<close> and
  \<^verbatim>\<open>test_times\<close> are \<open>data\<close>, \<open>stimes\<close> and \<open>tt\<close> here, apart from the attributes of the same
  names. The object is written four times: the saliva types, the test times, the sample times
  and the saliva data, with the calls that may raise between the writes.
\<close>

definition add_saliva_data ::
  "'c ext \<Rightarrow> 'c protocol \<Rightarrow> 'c pyval \<Rightarrow> 'c pyval \<Rightarrow> 'c pyval \<Rightarrow> 'c pyval \<Rightarrow> 'c outcome" where
  "add_saliva_data E p data saliva_type stimes tt =
   (let p1 = p\<lparr>saliva_types := saliva_type_list data saliva_type\<rparr>;
        p2 = (if tt \<noteq> VNone then p1\<lparr>test_times := tt\<rparr> else p1)
    in if data = VNone then (None, p2)
       else
         (case ebind (per_saliva_type (saliva_types p2) stimes) (\<lambda>stimes1.
               ebind (per_saliva_type (saliva_types p2) data) (\<lambda>data1.
               ebind (u_get_sample_times E data1 stimes1 (test_times p2)) (\<lambda>resolved.
               Inr (data1, resolved)))) of
            Inl e \<Rightarrow> (Some e, p2)
          | Inr (data1, resolved) \<Rightarrow>
              (let p3 = p2\<lparr>sample_times := dict_update (sample_times p2) resolved\<rparr>
               in case u_add_saliva_data E (VDict data1) (saliva_types p3) (VDict (sample_times p3)) of
                    Inl e \<Rightarrow> (Some e, p3)
                  | Inr (VDict added) \<Rightarrow>
                      (None, p3\<lparr>saliva_data := dict_update (saliva_data p3) added\<rparr>)
                  | Inr _ \<Rightarrow> (Some TypeError, p3))))"

section \<open>The sample time helpers\<close>

text \<open>
  The number of samples of each subject in a frame of saliva data, which has one row for each
  pair of a subject and a sample: the rows are counted by their label at the index level
  \<^verbatim>\<open>subject\<close>.
\<close>

definition subject_of_row :: "'c frame \<Rightarrow> label list \<Rightarrow> label option" where
  "subject_of_row f ix = map_of (zip (index_names f) ix) (Some ''subject'')"

definition samples_per_subject :: "'c frame \<Rightarrow> (label \<times> nat) list" where
  "samples_per_subject f =
     (let subjects = List.map_filter (\<lambda>r. subject_of_row f (fst r)) (rows f)
      in map (\<lambda>s. (s, count_list subjects s)) (remdups subjects))"

definition sample_times_mismatch :: "'c frame \<Rightarrow> nat \<Rightarrow> label option" where
  "sample_times_mismatch f n = map_option fst (find (\<lambda>sn. snd sn \<noteq> n) (samples_per_subject f))"

text \<open>\<^verbatim>\<open>len(x)\<close>: sequences, strings and dictionaries have a length.\<close>

fun py_len :: "'c pyval \<Rightarrow> nat option" where
  "py_len (VList xs) = Some (length xs)"
| "py_len (VTuple xs) = Some (length xs)"
| "py_len (VStr s) = Some (length s)"
| "py_len (VDict d) = Some (length d)"
| "py_len v = None"

text \<open>
  Modelled from the spec: \<^verbatim>\<open>_check_sample_times_match\<close> of \<^verbatim>\<open>biopsykit.protocols.utils\<close>, which is
  not part of the sources. The spec (the sample time resolver of section 4.1, and section 3)
  says that the length of the sample times must equal the number of samples for every subject
  and that a mismatch fails with a \<^verbatim>\<open>ValidationError\<close> that names what is offending. The
  function is called with the data and the sample times only (line 387), so it can name the
  subject.
\<close>

definition spec_check_sample_times_match :: "'c pyval \<Rightarrow> 'c pyval \<Rightarrow> error option" where
  "spec_check_sample_times_match data stimes =
     (case data of
        VFrame f \<Rightarrow>
          (case py_len stimes of
             None \<Rightarrow> Some TypeError
           | Some n \<Rightarrow>
               (case sample_times_mismatch f n of
                  Some subject \<Rightarrow> Some (ValidationError [subject])
                | None \<Rightarrow> None))
      | _ \<Rightarrow> Some (ValidationError []))"

text \<open>
  Modelled from the spec: \<^verbatim>\<open>_get_sample_times\<close> of \<^verbatim>\<open>biopsykit.protocols.utils\<close>, which is not
  part of the sources. It is the sample time resolver of section 4.1 of the spec: given the
  raw saliva data of each type, the sample times of each type or \<^verbatim>\<open>None\<close>, and the test times,
  it produces the validated sample times of each type. Sample times that are \<^verbatim>\<open>None\<close> are
  inferred from a column \<^verbatim>\<open>time\<close> of the data, which fails with a \<^verbatim>\<open>ConfigurationError\<close> when the
  column is absent. The length of the sample times must equal the number of samples of every
  subject; a mismatch fails with a \<^verbatim>\<open>ValidationError\<close> that names the saliva type and the
  subject. It has no side effect. The spec fixes neither how the times are read from the
  column nor the arithmetic of the conversion to absolute times (it gives one example), so both
  are parameters: \<open>infer\<close> and \<open>conv\<close>.
\<close>

definition resolve_sample_times ::
  "('c pyval \<Rightarrow> 'c pyval \<Rightarrow> 'c pyval) \<Rightarrow> ('c frame \<Rightarrow> 'c pyval) \<Rightarrow> string \<Rightarrow> 'c pyval \<Rightarrow> 'c pyval \<Rightarrow>
   'c pyval \<Rightarrow> error + 'c pyval" where
  "resolve_sample_times conv infer saliva_type data stimes tt =
     (case data of
        VFrame f \<Rightarrow>
          ebind (if stimes = VNone
                 then (if ''time'' \<in> set (columns f) then Inr (infer f) else Inl ConfigurationError)
                 else Inr stimes) (\<lambda>given.
          (case py_len given of
             None \<Rightarrow> Inl TypeError
           | Some n \<Rightarrow>
               (case sample_times_mismatch f n of
                  Some subject \<Rightarrow> Inl (ValidationError [LStr saliva_type, subject])
                | None \<Rightarrow> Inr (conv given tt))))
      | _ \<Rightarrow> Inl (ValidationError [LStr saliva_type]))"

fun spec_get_sample_times ::
  "('c pyval \<Rightarrow> 'c pyval \<Rightarrow> 'c pyval) \<Rightarrow> ('c frame \<Rightarrow> 'c pyval) \<Rightarrow> 'c pydict \<Rightarrow> 'c pydict \<Rightarrow>
   'c pyval \<Rightarrow> error + 'c pydict" where
  "spec_get_sample_times conv infer [] stimes tt = Inr []"
| "spec_get_sample_times conv infer ((saliva_type, data) # rest) stimes tt =
     ebind (dict_getitem stimes saliva_type) (\<lambda>given.
     ebind (resolve_sample_times conv infer saliva_type data given tt) (\<lambda>resolved.
     ebind (spec_get_sample_times conv infer rest stimes tt) (\<lambda>others.
     Inr ((saliva_type, resolved) # others))))"

text \<open>
  The first saliva type and subject for which the number of samples differs from the number of
  sample times, in a list of saliva types with their frame and their sample times.
\<close>

fun first_mismatch :: "(string \<times> 'c frame \<times> 'c pyval list) list \<Rightarrow> (string \<times> label) option" where
  "first_mismatch [] = None"
| "first_mismatch ((saliva_type, f, ts) # rest) =
     (case sample_times_mismatch f (length ts) of
        Some subject \<Rightarrow> Some (saliva_type, subject)
      | None \<Rightarrow> first_mismatch rest)"

section \<open>to_file and from_file\<close>

text \<open>
  The values of JSON. \<^verbatim>\<open>json.dump\<close> writes the text of a JSON value and \<^verbatim>\<open>json.load\<close> parses the
  text back into the same JSON value, so a file that holds a JSON document is modelled by the
  JSON value; the text itself is not. A file that was opened for writing and whose dump raised
  holds no document.
\<close>

datatype json =
    JNull
  | JBool bool
  | JInt int
  | JFloat pyfloat
  | JStr string
  | JArr "json list"
  | JObj "(string \<times> json) list"

datatype file_content = Document json | Incomplete

type_synonym files = "(string \<times> file_content) list"

text \<open>
  \<^verbatim>\<open>json.dump\<close> on a Python value: \<^verbatim>\<open>None\<close> is \<^verbatim>\<open>null\<close>, lists and tuples are both arrays,
  dictionaries are objects, and a data frame is not serializable (\<^verbatim>\<open>TypeError\<close>, here \<open>None\<close>).
  A floating point number is written with the digits that read back as the same number, an
  infinity and not a number as \<^verbatim>\<open>Infinity\<close>, \<^verbatim>\<open>-Infinity\<close> and \<^verbatim>\<open>NaN\<close>; integers and floating
  point numbers stay apart (\<^verbatim>\<open>1\<close> and \<^verbatim>\<open>1.0\<close>).
\<close>

function json_dump :: "'c pyval \<Rightarrow> json option"
and json_dump_list :: "'c pyval list \<Rightarrow> json list option"
and json_dump_items :: "'c pydict \<Rightarrow> (string \<times> json) list option" where
  "json_dump VNone = Some JNull"
| "json_dump (VBool b) = Some (JBool b)"
| "json_dump (VInt i) = Some (JInt i)"
| "json_dump (VFloat x) = Some (JFloat x)"
| "json_dump (VStr s) = Some (JStr s)"
| "json_dump (VList xs) = map_option JArr (json_dump_list xs)"
| "json_dump (VTuple xs) = map_option JArr (json_dump_list xs)"
| "json_dump (VDict kvs) = map_option JObj (json_dump_items kvs)"
| "json_dump (VFrame f) = None"
| "json_dump_list [] = Some []"
| "json_dump_list (x # xs) =
     (case json_dump x of
        None \<Rightarrow> None
      | Some j \<Rightarrow> map_option (\<lambda>js. j # js) (json_dump_list xs))"
| "json_dump_items [] = Some []"
| "json_dump_items ((k, v) # kvs) =
     (case json_dump v of
        None \<Rightarrow> None
      | Some j \<Rightarrow> map_option (\<lambda>js. (k, j) # js) (json_dump_items kvs))"
  by pat_completeness auto
termination
  by (relation "measure (\<lambda>x. case x of
          Inl v \<Rightarrow> size v
        | Inr (Inl xs) \<Rightarrow> size_list size xs
        | Inr (Inr kvs) \<Rightarrow> size_list (size_prod (\<lambda>k. 0) size) kvs)") auto

text \<open>
  \<^verbatim>\<open>json.load\<close>: an array becomes a list, an object a dictionary that is filled key by key, so
  that of two equal keys the later value stays.
\<close>

function json_load :: "json \<Rightarrow> 'c pyval"
and json_load_list :: "json list \<Rightarrow> 'c pyval list"
and json_load_items :: "(string \<times> json) list \<Rightarrow> 'c pydict" where
  "json_load JNull = VNone"
| "json_load (JBool b) = VBool b"
| "json_load (JInt i) = VInt i"
| "json_load (JFloat x) = VFloat x"
| "json_load (JStr s) = VStr s"
| "json_load (JArr js) = VList (json_load_list js)"
| "json_load (JObj kjs) = VDict (dict_update [] (json_load_items kjs))"
| "json_load_list [] = []"
| "json_load_list (j # js) = json_load j # json_load_list js"
| "json_load_items [] = []"
| "json_load_items ((k, j) # kjs) = (k, json_load j) # json_load_items kjs"
  by pat_completeness auto
termination
  by (relation "measure (\<lambda>x. case x of
          Inl j \<Rightarrow> size j
        | Inr (Inl js) \<Rightarrow> size_list size js
        | Inr (Inr kjs) \<Rightarrow> size_list (size_prod (\<lambda>k. 0) size) kjs)") auto

text \<open>
  \<^verbatim>\<open>to_file\<close> (lines 279 to 298). The extension check is a collaborator. Opening the file for
  writing creates or empties it; writing is assumed to succeed. The exported dictionary has
  the three keys of \<^verbatim>\<open>to_export\<close>, in this order. The object is not written.
\<close>

definition to_file :: "'c ext \<Rightarrow> 'c protocol \<Rightarrow> string \<Rightarrow> files \<Rightarrow> error option \<times> files" where
  "to_file E p file_path fs =
     (case u_assert_file_extension E file_path ''.json'' of
        Some e \<Rightarrow> (Some e, fs)
      | None \<Rightarrow>
          (let json_dict = VDict [(''name'', name p),
                                  (''structure'', protocol_structure p),
                                  (''test_times'', test_times p)]
           in case json_dump json_dict of
                None \<Rightarrow> (Some TypeError, dict_setitem fs file_path Incomplete)
              | Some doc \<Rightarrow> (None, dict_setitem fs file_path (Document doc))))"

text \<open>
  \<^verbatim>\<open>from_file\<close> (lines 300 to 320): \<^verbatim>\<open>cls(**json_dict)\<close> needs a dictionary with the key
  \<^verbatim>\<open>name\<close>; \<^verbatim>\<open>structure\<close> and \<^verbatim>\<open>test_times\<close> default to \<^verbatim>\<open>None\<close>, and every other key is a
  keyword argument of the constructor.
\<close>

definition from_file :: "'c ext \<Rightarrow> string \<Rightarrow> files \<Rightarrow> error + 'c protocol" where
  "from_file E file_path fs =
     (case u_assert_file_extension E file_path ''.json'' of
        Some e \<Rightarrow> Inl e
      | None \<Rightarrow>
          (case map_of fs file_path of
             None \<Rightarrow> Inl FileNotFoundError
           | Some Incomplete \<Rightarrow> Inl JSONDecodeError
           | Some (Document doc) \<Rightarrow>
               (case json_load doc of
                  VDict json_dict \<Rightarrow>
                    (case map_of json_dict ''name'' of
                       None \<Rightarrow> Inl TypeError
                     | Some nm \<Rightarrow>
                         Inr (init_protocol nm
                                (case map_of json_dict ''structure'' of None \<Rightarrow> VNone | Some v \<Rightarrow> v)
                                (case map_of json_dict ''test_times'' of None \<Rightarrow> VNone | Some v \<Rightarrow> v)
                                (filter (\<lambda>kv. fst kv \<notin> {''name'', ''structure'', ''test_times''})
                                   json_dict)))
                | _ \<Rightarrow> Inl TypeError)))"

text \<open>
  The values that JSON represents without loss: \<^verbatim>\<open>None\<close>, truth values, integers, floating
  point numbers, strings, lists and dictionaries of such values. A tuple is serializable and is
  not among them, since it is written as an array. Not a number is read back as not a number,
  which no value equals, itself included, so it is not among them either. The keys of a
  dictionary are distinct, as in every Python dictionary.
\<close>

function json_exact :: "'c pyval \<Rightarrow> bool"
and json_exact_list :: "'c pyval list \<Rightarrow> bool"
and json_exact_items :: "'c pydict \<Rightarrow> bool" where
  "json_exact VNone = True"
| "json_exact (VBool b) = True"
| "json_exact (VInt i) = True"
| "json_exact (VFloat x) = (x \<noteq> NaN)"
| "json_exact (VStr s) = True"
| "json_exact (VList xs) = json_exact_list xs"
| "json_exact (VTuple xs) = False"
| "json_exact (VDict kvs) = (distinct (map fst kvs) \<and> json_exact_items kvs)"
| "json_exact (VFrame f) = False"
| "json_exact_list [] = True"
| "json_exact_list (x # xs) = (json_exact x \<and> json_exact_list xs)"
| "json_exact_items [] = True"
| "json_exact_items ((k, v) # kvs) = (json_exact v \<and> json_exact_items kvs)"
  by pat_completeness auto
termination
  by (relation "measure (\<lambda>x. case x of
          Inl v \<Rightarrow> size v
        | Inr (Inl xs) \<Rightarrow> size_list size xs
        | Inr (Inr kvs) \<Rightarrow> size_list (size_prod (\<lambda>k. 0) size) kvs)") auto

section \<open>An instance of the collaborators\<close>

text \<open>
  A small instance of the collaborators on which the operations can be run: every transformer
  returns a dictionary with one entry, its own name, holding the list of its arguments, so that
  a result shows which steps ran, in which order and with which parameters. The HRV function
  returns a one-row frame with an unnamed index, as a frame with a default index has. The
  extension check accepts a path that ends with the extension. The
  guard for raw saliva data accepts a frame with index levels \<^verbatim>\<open>subject\<close> and \<^verbatim>\<open>sample\<close> and
  a column named as the saliva type.
\<close>

definition traced :: "string \<Rightarrow> 'c pyval list \<Rightarrow> 'c pyval" where
  "traced step args = VDict [(step, VList args)]"

definition sample_ext :: "unit ext" where
  "sample_ext =
     \<lparr> resample_dict_sec = (\<lambda>d. Inr (traced ''resample'' [d])),
       normalize_to_phase = (\<lambda>d param. Inr (traced ''normalize'' [d, param])),
       select_dict_phases = (\<lambda>d param. Inr (traced ''select'' [d, param])),
       split_dict_into_subphases = (\<lambda>d param. Inr (traced ''split'' [d, param])),
       mean_per_subject_dict = (\<lambda>d param col. Inr (traced ''mean'' [d, param, VStr col])),
       add_subject_conditions = (\<lambda>d param. Inr (traced ''conditions'' [d, param])),
       rearrange_subject_data_dict = (\<lambda>d. Inr [(''rearrange'', d)]),
       cut_phases_to_shortest = (\<lambda>d. Inr (traced ''cut'' [d])),
       merge_study_data_dict = (\<lambda>d. Inr (traced ''merge'' [d])),
       split_subject_conditions = (\<lambda>d param. Inr (traced ''split_conditions'' [d, param])),
       hrv_process = (\<lambda>f hrv_params.
          Inr \<lparr> index_names = [None], columns = [''HRV_RMSSD''], rows = [([LInt 0], ())] \<rparr>),
       is_saliva_raw_dataframe = (\<lambda>d saliva_type.
          case d of
            VFrame f \<Rightarrow>
              (case saliva_type of
                 VStr t \<Rightarrow> t \<in> set (columns f) \<and> Some ''subject'' \<in> set (index_names f)
                           \<and> Some ''sample'' \<in> set (index_names f)
               | _ \<Rightarrow> False)
          | _ \<Rightarrow> False),
       is_saliva_mean_se_dataframe = (\<lambda>d. False),
       u_get_sample_times = (\<lambda>data times tt. Inr times),
       u_check_sample_times_match = (\<lambda>d times. None),
       u_assert_file_extension = (\<lambda>file_path extension.
          if length extension \<le> length file_path
             \<and> drop (length file_path - length extension) file_path = extension
          then None else Some (ValidationError [LStr file_path])) \<rparr>"

definition sample_protocol :: "unit protocol" where
  "sample_protocol =
     (init_protocol (VStr ''Base'') VNone VNone [])
       \<lparr> hr_data := [(''Study'', VDict [(''Vp01'', VDict [])])],
         hr_results := [(''old'', VInt 1)] \<rparr>"

text \<open>
  Collaborators whose rearrangement returns two phases, and collaborators whose phase selection
  raises.
\<close>

definition phases_ext :: "unit ext" where
  "phases_ext =
     sample_ext\<lparr> rearrange_subject_data_dict :=
       (\<lambda>d. Inr [(''Baseline'', traced ''Baseline'' [d]), (''Stress'', traced ''Stress'' [d])]) \<rparr>"

definition failing_ext :: "unit ext" where
  "failing_ext =
     sample_ext\<lparr> select_dict_phases := (\<lambda>d param. Inl KeyError),
                 cut_phases_to_shortest := (\<lambda>d. Inl ValueError) \<rparr>"

text \<open>
  R peaks of two subjects, the first with two phases: a dictionary of nesting depth 2.
\<close>

definition rpeak_frame :: "unit frame" where
  "rpeak_frame = \<lparr> index_names = [None], columns = [''R_Peak_Idx''], rows = [([LInt 0], ())] \<rparr>"

definition sample_rpeaks :: "unit pydict" where
  "sample_rpeaks =
     [(''Vp01'', VDict [(''Stress'', VFrame rpeak_frame), (''Rest'', VFrame rpeak_frame)]),
      (''Vp02'', VDict [(''Stress'', VFrame rpeak_frame)])]"

text \<open>An HRV function that raises on a frame without rows, as on too few peaks.\<close>

definition picky_ext :: "unit ext" where
  "picky_ext =
     sample_ext\<lparr> hrv_process := (\<lambda>f hrv_params.
        if rows f = [] then Inl ValueError
        else Inr \<lparr> index_names = [None], columns = [''HRV_RMSSD''], rows = [([LInt 0], ())] \<rparr>) \<rparr>"

definition hrv_protocol :: "unit protocol" where
  "hrv_protocol = sample_protocol\<lparr> rpeak_data := [(''Study'', VDict sample_rpeaks)] \<rparr>"

text \<open>A protocol whose only recording has no R peaks, and one whose heart rate entry is no
  dictionary.\<close>

definition no_peaks_protocol :: "unit protocol" where
  "no_peaks_protocol =
     sample_protocol\<lparr> rpeak_data :=
       [(''Study'', VDict [(''Vp01'', VDict [(''Stress'',
          VFrame \<lparr> index_names = [None], columns = [''R_Peak_Idx''], rows = [] \<rparr>)])])] \<rparr>"

definition number_protocol :: "unit protocol" where
  "number_protocol = sample_protocol\<lparr> hr_data := [(''Study'', VInt 3)] \<rparr>"

text \<open>
  Raw cortisol data of two subjects with five samples each, and the collaborators with the two
  sample time helpers as modelled above; absolute times are the given times, as in the example
  of the spec, whose test starts at 0.
\<close>

definition cortisol_frame :: "unit frame" where
  "cortisol_frame =
     \<lparr> index_names = [Some ''subject'', Some ''sample''],
       columns = [''cortisol''],
       rows = [([LStr ''Vp01'', LStr ''S0''], ()), ([LStr ''Vp01'', LStr ''S1''], ()),
               ([LStr ''Vp01'', LStr ''S2''], ()), ([LStr ''Vp01'', LStr ''S3''], ()),
               ([LStr ''Vp01'', LStr ''S4''], ()),
               ([LStr ''Vp02'', LStr ''S0''], ()), ([LStr ''Vp02'', LStr ''S1''], ()),
               ([LStr ''Vp02'', LStr ''S2''], ()), ([LStr ''Vp02'', LStr ''S3''], ()),
               ([LStr ''Vp02'', LStr ''S4''], ())] \<rparr>"

definition saliva_ext :: "unit ext" where
  "saliva_ext =
     sample_ext\<lparr> u_get_sample_times := spec_get_sample_times (\<lambda>given tt. given) (\<lambda>f. VList []),
                 u_check_sample_times_match := spec_check_sample_times_match \<rparr>"

definition five_times :: "unit pyval list" where
  "five_times = [VInt (-1), VInt 0, VInt 10, VInt 20, VInt 30]"

text \<open>
  The protocol of the examples of the constructor (a stress test with three phases), once with
  its test times as a list, of an integer and the floating point number 900.5, and once as a
  tuple.
\<close>

definition tsst_structure :: "unit pyval" where
  "tsst_structure =
     VDict [(''Before'', VNone),
            (''TSST'', VDict [(''Preparation'', VInt 300), (''Talk'', VInt 300), (''Math'', VInt 300)]),
            (''After'', VNone)]"

definition list_protocol :: "unit protocol" where
  "list_protocol =
     init_protocol (VStr ''Base'') tsst_structure (VList [VInt 0, VFloat (Finite 1801 (- 1))]) []"

definition tuple_protocol :: "unit protocol" where
  "tuple_protocol = init_protocol (VStr ''Base'') tsst_structure (VTuple [VInt 0, VInt 900]) []"

section \<open>Properties\<close>

lemma ebind_Inl [simp]: "ebind (Inl e) f = Inl e"
  by (simp add: ebind_def)

lemma ebind_Inr [simp]: "ebind (Inr x) f = f x"
  by (simp add: ebind_def)

lemma ebind_Inr_right [simp]: "ebind m Inr = m"
  by (cases m) simp_all

lemma params_get_Some [simp]: "params_get (Some ps) k dflt = Inr (param_or ps k dflt)"
  by (simp add: params_get_def param_or_def split: option.splits)

lemma hr_results_pipeline_steps:
  assumes "map_of (hr_data p) (study_part_or_default study_part) = Some d0"
      and "py_copy d0 = Inr d"
  shows "hr_results_pipeline E p study_part r n s sp m a params =
         run_steps (hr_results_steps E r n s sp m a (case params of None \<Rightarrow> [] | Some ps \<Rightarrow> ps)) d"
proof -
  have "run_steps (hr_results_steps E r n s sp m a ps) d =
        hr_results_pipeline E p study_part r n s sp m a (Some ps)" for ps
    unfolding hr_results_pipeline_def hr_results_steps_def run_steps.simps Let_def
    using assms by (simp add: dict_getitem_def cong: if_cong)
  moreover have "hr_results_pipeline E p study_part r n s sp m a None =
                 hr_results_pipeline E p study_part r n s sp m a (Some [])"
    by (simp add: hr_results_pipeline_def)
  ultimately show ?thesis by (cases params) simp_all
qed

lemma map_of_dict_setitem [simp]: "map_of (dict_setitem d k v) = (map_of d)(k \<mapsto> v)"
  by (simp add: dict_setitem_def update_conv')

text \<open>
  Claim C1. For a study part that is present in \<^verbatim>\<open>hr_data\<close>, for every combination of the six
  switches and every parameter dictionary (or none), if the enabled steps, applied in the order
  resample, normalize, select phases, split into subphases, mean per subject, add conditions,
  with the disabled steps passing the data on unchanged, give a result, then
  \<^verbatim>\<open>compute_hr_results\<close> returns, changes nothing but \<^verbatim>\<open>hr_results\<close>, and stores exactly that
  result under \<^verbatim>\<open>result_id\<close>.
\<close>

theorem compute_hr_results_fixed_order:
  assumes "map_of (hr_data p) (study_part_or_default study_part) = Some (VDict dd)"
      and "run_steps
             (hr_results_steps E resample_sec normalize_to select_phases split_into_subphases
                mean_per_subject add_conditions (case params of None \<Rightarrow> [] | Some ps \<Rightarrow> ps))
             (VDict dd) = Inr res"
  shows "compute_hr_results E p result_id study_part resample_sec normalize_to select_phases
           split_into_subphases mean_per_subject add_conditions params =
         (None, p\<lparr>hr_results := dict_setitem (hr_results p) result_id res\<rparr>)
       \<and> map_of (hr_results (snd (compute_hr_results E p result_id study_part resample_sec
              normalize_to select_phases split_into_subphases mean_per_subject add_conditions
              params))) result_id = Some res"
proof -
  have "hr_results_pipeline E p study_part resample_sec normalize_to select_phases
          split_into_subphases mean_per_subject add_conditions params = Inr res"
    using assms hr_results_pipeline_steps [of p study_part "VDict dd" "VDict dd"] by simp
  then show ?thesis by (simp add: compute_hr_results_def)
qed

theorem compute_hr_results_fixed_order_witness:
  "compute_hr_results sample_ext sample_protocol ''r'' None True False True False True False
     (Some [(''select_phases'', VList [VStr ''Stress''])]) =
   (None, sample_protocol\<lparr>hr_results :=
      [(''old'', VInt 1),
       (''r'', traced ''mean''
          [traced ''select''
             [traced ''resample'' [VDict [(''Vp01'', VDict [])]], VList [VStr ''Stress'']],
           VList [VStr ''subject'', VStr ''phase''],
           VStr ''Heart_Rate''])]\<rparr>)"
proof -
  have present: "map_of (hr_data sample_protocol) (study_part_or_default None) =
                 Some (VDict [(''Vp01'', VDict [])])"
    by (simp add: sample_protocol_def init_protocol_def study_part_or_default_def)
  have steps: "run_steps
      (hr_results_steps sample_ext True False True False True False
         (case Some [(''select_phases'', VList [VStr ''Stress''])] of None \<Rightarrow> [] | Some ps \<Rightarrow> ps))
      (VDict [(''Vp01'', VDict [])]) =
    Inr (traced ''mean''
          [traced ''select''
             [traced ''resample'' [VDict [(''Vp01'', VDict [])]], VList [VStr ''Stress'']],
           VList [VStr ''subject'', VStr ''phase''],
           VStr ''Heart_Rate''])"
    by (simp add: hr_results_steps_def sample_ext_def param_or_def)
  have stored: "dict_setitem (hr_results sample_protocol) ''r'' v = [(''old'', VInt 1), (''r'', v)]" for v
    by (simp add: sample_protocol_def init_protocol_def dict_setitem_def)
  show ?thesis
    using compute_hr_results_fixed_order [OF present steps, of "''r''"] by (simp add: stored)
qed

lemma ebind_assoc: "ebind (ebind m f) g = ebind m (\<lambda>x. ebind (f x) g)"
  by (cases m) simp_all

lemma params_get_None [simp]: "params_get None k dflt = Inl AttributeError"
  by (simp add: params_get_def)

lemma hr_results_pipeline_None:
  "hr_results_pipeline E p study_part r n s sp m a None =
   hr_results_pipeline E p study_part r n s sp m a (Some [])"
  by (simp add: hr_results_pipeline_def)

lemma hrv_results_pipeline_None:
  "hrv_results_pipeline E p study_part s sp a levels hrv_params None =
   hrv_results_pipeline E p study_part s sp a levels hrv_params (Some [])"
  by (cases a) (simp_all add: hrv_results_pipeline_def hrv_dropped_def hrv_working_data_def)

text \<open>
  Claim C9. \<^verbatim>\<open>compute_hr_ensemble\<close> does not replace a missing parameter dictionary by an empty
  one. With \<^verbatim>\<open>params\<close> left at \<^verbatim>\<open>None\<close>, on a study part that is present and whose resampling
  (when switched on) succeeds, the call raises \<^verbatim>\<open>AttributeError\<close> and leaves the object, and
  with it the cache \<^verbatim>\<open>hr_ensemble\<close>, as it was: when \<^verbatim>\<open>normalize_to\<close> is on (its default); when
  it is off, \<^verbatim>\<open>select_phases\<close> is on and the rearrangement succeeds; and when both are off,
  \<^verbatim>\<open>add_conditions\<close> is on and the steps before it succeed. \<^verbatim>\<open>compute_hr_results\<close> and
  \<^verbatim>\<open>compute_hrv_results\<close> behave with \<^verbatim>\<open>None\<close> as with an empty dictionary.
\<close>

theorem compute_hr_ensemble_params_none:
  assumes "map_of (hr_data p) (study_part_or_default study_part) = Some (VDict dd)"
      and "(if resample_sec then resample_dict_sec E (VDict dd) else Inr (VDict dd)) = Inr d2"
  shows "compute_hr_ensemble E p ensemble_id study_part resample_sec True select_phases cut_phases
           merge_dict add_conditions None = (Some AttributeError, p)
       \<and> (rearrange_subject_data_dict E d2 = Inr d4 \<longrightarrow>
            compute_hr_ensemble E p ensemble_id study_part resample_sec False True cut_phases
              merge_dict add_conditions None = (Some AttributeError, p))
       \<and> (rearrange_subject_data_dict E d2 = Inr d4 \<and>
          (if cut_phases then cut_phases_to_shortest E (VDict d4) else Inr (VDict d4)) = Inr d6 \<and>
          (if merge_dict then merge_study_data_dict E d6 else Inr d6) = Inr d7 \<longrightarrow>
            compute_hr_ensemble E p ensemble_id study_part resample_sec False False cut_phases
              merge_dict True None = (Some AttributeError, p))
       \<and> compute_hr_results E p result_id study_part resample_sec normalize_to select_phases
           split_into_subphases mean_per_subject add_conditions None =
         compute_hr_results E p result_id study_part resample_sec normalize_to select_phases
           split_into_subphases mean_per_subject add_conditions (Some [])
       \<and> compute_hrv_results E p result_id study_part select_phases split_into_subphases
           add_conditions dict_levels hrv_params None =
         compute_hrv_results E p result_id study_part select_phases split_into_subphases
           add_conditions dict_levels hrv_params (Some [])"
proof -
  have start: "dict_getitem (hr_data p) (study_part_or_default study_part) = Inr (VDict dd)"
    using assms(1) by (simp add: dict_getitem_def)
  have one: "hr_ensemble_pipeline E p study_part resample_sec True select_phases cut_phases
               merge_dict add_conditions None = Inl AttributeError"
    using assms(2) by (simp add: hr_ensemble_pipeline_def start)
  have two: "hr_ensemble_pipeline E p study_part resample_sec False True cut_phases
               merge_dict add_conditions None = Inl AttributeError"
    if "rearrange_subject_data_dict E d2 = Inr d4"
    using assms(2) that
    by (simp add: hr_ensemble_pipeline_def start ensemble_select_phases_def)
  have three: "hr_ensemble_pipeline E p study_part resample_sec False False cut_phases
               merge_dict True None = Inl AttributeError"
    if "rearrange_subject_data_dict E d2 = Inr d4"
       "(if cut_phases then cut_phases_to_shortest E (VDict d4) else Inr (VDict d4)) = Inr d6"
       "(if merge_dict then merge_study_data_dict E d6 else Inr d6) = Inr d7"
    using assms(2) that
    by (simp add: hr_ensemble_pipeline_def start)
  show ?thesis
    using one two three
    by (simp add: compute_hr_ensemble_def compute_hr_results_def compute_hrv_results_def
          hr_results_pipeline_None hrv_results_pipeline_None)
qed

theorem compute_hr_ensemble_params_none_witness:
  "compute_hr_ensemble sample_ext sample_protocol ''e'' None True True False True True False None =
     (Some AttributeError, sample_protocol)
   \<and> compute_hr_ensemble sample_ext sample_protocol ''e'' None True False True True True False None =
     (Some AttributeError, sample_protocol)
   \<and> compute_hr_ensemble sample_ext sample_protocol ''e'' None True False False True True True None =
     (Some AttributeError, sample_protocol)
   \<and> hr_ensemble (snd (compute_hr_ensemble sample_ext sample_protocol ''e'' None True True False
        True True False None)) = []"
proof -
  have present: "map_of (hr_data sample_protocol) (study_part_or_default None) =
                 Some (VDict [(''Vp01'', VDict [])])"
    by (simp add: sample_protocol_def init_protocol_def study_part_or_default_def)
  have resampled: "(if True then resample_dict_sec sample_ext (VDict [(''Vp01'', VDict [])])
                    else Inr (VDict [(''Vp01'', VDict [])])) =
                   Inr (traced ''resample'' [VDict [(''Vp01'', VDict [])]])"
    by (simp add: sample_ext_def)
  have cache: "hr_ensemble sample_protocol = []"
    by (simp add: sample_protocol_def init_protocol_def)
  show ?thesis
    using compute_hr_ensemble_params_none [OF present resampled, of "''e''" False True True False
        "[(''rearrange'', traced ''resample'' [VDict [(''Vp01'', VDict [])]])]"
        "traced ''cut'' [VDict [(''rearrange'', traced ''resample'' [VDict [(''Vp01'', VDict [])]])]]"
        "traced ''merge'' [traced ''cut'' [VDict [(''rearrange'', traced ''resample'' [VDict [(''Vp01'', VDict [])]])]]]"]
    by (simp add: sample_ext_def cache)
qed

text \<open>
  Claim C8. \<^verbatim>\<open>compute_hr_results\<close> and \<^verbatim>\<open>compute_hr_ensemble\<close> leave the raw input dictionaries
  \<^verbatim>\<open>hr_data\<close>, \<^verbatim>\<open>rpeak_data\<close> and \<^verbatim>\<open>saliva_data\<close>, the two other caches, and every entry of their own
  cache under another identifier as they were, whether the call returns or raises.
\<close>

theorem compute_frame:
  "(let p' = snd (compute_hr_results E p result_id study_part resample_sec normalize_to
                    select_phases split_into_subphases mean_per_subject add_conditions params)
    in hr_data p' = hr_data p \<and> rpeak_data p' = rpeak_data p \<and> saliva_data p' = saliva_data p
       \<and> hrv_results p' = hrv_results p \<and> hr_ensemble p' = hr_ensemble p
       \<and> (\<forall>k. k \<noteq> result_id \<longrightarrow> map_of (hr_results p') k = map_of (hr_results p) k))
 \<and> (let p' = snd (compute_hr_ensemble E p ensemble_id study_part resample_sec normalize_to
                    select_phases cut_phases merge_dict add_conditions params)
    in hr_data p' = hr_data p \<and> rpeak_data p' = rpeak_data p \<and> saliva_data p' = saliva_data p
       \<and> hr_results p' = hr_results p \<and> hrv_results p' = hrv_results p
       \<and> (\<forall>k. k \<noteq> ensemble_id \<longrightarrow> map_of (hr_ensemble p') k = map_of (hr_ensemble p) k))"
proof -
  have results: "?thesis" if
    "hr_results_pipeline E p study_part resample_sec normalize_to select_phases
       split_into_subphases mean_per_subject add_conditions params = x"
    "hr_ensemble_pipeline E p study_part resample_sec normalize_to select_phases cut_phases
       merge_dict add_conditions params = y" for x y
    using that by (cases x; cases y) (simp_all add: compute_hr_results_def compute_hr_ensemble_def)
  then show ?thesis by blast
qed

theorem compute_frame_witness:
  "map_of (hr_results (snd (compute_hr_results sample_ext sample_protocol ''r'' None True False
      False False True False None))) ''old'' = Some (VInt 1)
   \<and> hr_data (snd (compute_hr_results sample_ext sample_protocol ''r'' None True False
      False False True False None)) = [(''Study'', VDict [(''Vp01'', VDict [])])]
   \<and> hr_results (snd (compute_hr_ensemble sample_ext sample_protocol ''e'' None True False
      False True True False None)) = [(''old'', VInt 1)]"
proof -
  have fields: "hr_results sample_protocol = [(''old'', VInt 1)]"
    "hr_data sample_protocol = [(''Study'', VDict [(''Vp01'', VDict [])])]"
    by (simp_all add: sample_protocol_def init_protocol_def)
  have other: "''old'' \<noteq> ''r''"
    by simp
  show ?thesis
    using compute_frame [of sample_ext sample_protocol "''r''" None True False False False True
        False None "''e''" True True] other
    by (simp add: fields Let_def)
qed

declare u_compute_hrv_dict.simps [simp del]

lemma uniform_depth_0: "uniform_depth 0 v \<longleftrightarrow> (\<exists>f. v = VFrame f)"
  by (cases v) simp_all

lemma uniform_depth_VDict:
  "uniform_depth (Suc n) (VDict d) \<longleftrightarrow> d \<noteq> [] \<and> (\<forall>kv\<in>set d. uniform_depth n (snd kv))"
  by (simp add: list_all_iff)

lemma uniform_depth_Suc:
  "uniform_depth (Suc n) v \<longleftrightarrow>
     (\<exists>d. v = VDict d \<and> d \<noteq> [] \<and> (\<forall>kv\<in>set d. uniform_depth n (snd kv)))"
  by (cases v) (simp_all add: list_all_iff)

declare uniform_depth.simps [simp del]

lemma hrv_item_VFrame [simp]: "hrv_item E (VFrame f) hp lv = hrv_process E f hp"
  by simp

lemma hrv_item_VDict [simp]: "hrv_item E (VDict d) hp lv = u_compute_hrv_dict E d hp (tl lv)"
  by simp

declare hrv_item.simps [simp del]

lemma hrv_items_cong_levels:
  "(\<forall>kv\<in>set d. hrv_item E (snd kv) hp lv = hrv_item E (snd kv) hp lv') \<Longrightarrow>
   hrv_items E d hp lv = hrv_items E d hp lv'"
  by (induction d) auto

lemma hrv_items_Inr:
  "hrv_items E d hp lv = Inr rs \<Longrightarrow>
   length rs = length d \<and> (\<forall>kr\<in>set rs. \<exists>kv\<in>set d. hrv_item E (snd kv) hp lv = Inr (snd kr))"
proof (induction d arbitrary: rs)
  case Nil
  then show ?case by simp
next
  case (Cons kv d)
  obtain k v where kv: "kv = (k, v)" by (cases kv)
  from Cons.prems obtain r rs' where
    r: "hrv_item E v hp lv = Inr r" and rs': "hrv_items E d hp lv = Inr rs'" and
    rs: "rs = (k, r) # rs'"
    by (cases "hrv_item E v hp lv"; cases "hrv_items E d hp lv") (auto simp: kv)
  from Cons.IH [OF rs'] r show ?case by (auto simp: rs kv)
qed

lemma surplus_levels_ignored:
  "uniform_depth (Suc n) (VDict d) \<Longrightarrow> Suc n \<le> length lv \<Longrightarrow>
   u_compute_hrv_dict E d hp lv = u_compute_hrv_dict E d hp (take (Suc n) lv)"
proof (induction n arbitrary: d lv)
  case 0
  then obtain a l where lv: "lv = a # l" by (cases lv) auto
  from 0 have "\<forall>kv\<in>set d. \<exists>f. snd kv = VFrame f"
    by (auto simp: uniform_depth_VDict uniform_depth_0)
  then have "hrv_items E d hp lv = hrv_items E d hp (take (Suc 0) lv)"
    by (intro hrv_items_cong_levels) auto
  then show ?case
    by (simp add: u_compute_hrv_dict.simps [of E d hp] lv)
next
  case (Suc m)
  then obtain a l where lv: "lv = a # l" by (cases lv) auto
  have "hrv_item E (snd kv) hp lv = hrv_item E (snd kv) hp (take (Suc (Suc m)) lv)"
    if "kv \<in> set d" for kv
  proof -
    from Suc.prems(1) that have "uniform_depth (Suc m) (snd kv)"
      by (auto simp: uniform_depth_VDict)
    then obtain d' where d': "snd kv = VDict d'" "uniform_depth (Suc m) (VDict d')"
      by (auto simp: uniform_depth_Suc)
    from Suc.prems(2) have "Suc m \<le> length l" by (simp add: lv)
    from Suc.IH [OF d'(2) this] show ?thesis
      by (simp add: d'(1) lv)
  qed
  then have "hrv_items E d hp lv = hrv_items E d hp (take (Suc (Suc m)) lv)"
    by (intro hrv_items_cong_levels) auto
  then show ?case
    by (simp add: u_compute_hrv_dict.simps [of E d hp] lv)
qed

lemma hrv_items_first_raises:
  "d \<noteq> [] \<Longrightarrow> (\<forall>kv\<in>set d. hrv_item E (snd kv) hp lv = Inl e) \<Longrightarrow> hrv_items E d hp lv = Inl e"
  by (cases d) auto

lemma leaf_frames_VFrame [simp]: "leaf_frames (VFrame f) = [f]"
  by simp

lemma leaf_frames_VDict [simp]: "leaf_frames (VDict d) = leaf_frames_items d"
  by simp

declare leaf_frames.simps [simp del]

lemma leaf_frames_items_member:
  "kv \<in> set d \<Longrightarrow> set (leaf_frames (snd kv)) \<subseteq> set (leaf_frames_items d)"
  by (induction d) auto

lemma hrv_items_all_frames:
  "(\<forall>kv\<in>set d. \<exists>f. snd kv = VFrame f) \<Longrightarrow>
   (\<forall>f\<in>set (leaf_frames_items d). \<exists>r. hrv_process E f hp = Inr r) \<Longrightarrow>
   \<exists>rs. hrv_items E d hp lv = Inr rs"
proof (induction d)
  case Nil
  then show ?case by simp
next
  case (Cons kv d)
  obtain k v where kv: "kv = (k, v)" by (cases kv)
  from Cons.prems obtain f where f: "v = VFrame f" by (auto simp: kv)
  from Cons.prems obtain r where r: "hrv_process E f hp = Inr r" by (auto simp: kv f)
  from Cons obtain rs where "hrv_items E d hp lv = Inr rs" by (auto simp: kv)
  then show ?case by (simp add: kv f r)
qed

lemma missing_levels_raise:
  "uniform_depth (Suc n) (VDict d) \<Longrightarrow> length lv \<le> n \<Longrightarrow>
   (\<forall>f\<in>set (leaf_frames (VDict d)). \<exists>r. hrv_process E f hp = Inr r) \<Longrightarrow>
   u_compute_hrv_dict E d hp lv = Inl IndexError"
proof (induction n arbitrary: d lv)
  case 0
  then have "\<forall>kv\<in>set d. \<exists>f. snd kv = VFrame f"
    by (auto simp: uniform_depth_VDict uniform_depth_0)
  with 0 obtain rs where "hrv_items E d hp lv = Inr rs"
    using hrv_items_all_frames [of d E hp lv] by auto
  with 0 show ?case
    by (simp add: u_compute_hrv_dict.simps [of E d hp])
next
  case (Suc m)
  have "hrv_item E (snd kv) hp lv = Inl IndexError" if "kv \<in> set d" for kv
  proof -
    from Suc.prems(1) that have "uniform_depth (Suc m) (snd kv)"
      by (auto simp: uniform_depth_VDict)
    then obtain d' where d': "snd kv = VDict d'" "uniform_depth (Suc m) (VDict d')"
      by (auto simp: uniform_depth_Suc)
    from Suc.prems(2) have short: "length (tl lv) \<le> m" by simp
    from leaf_frames_items_member [OF that] Suc.prems(3)
    have "\<forall>f\<in>set (leaf_frames (VDict d')). \<exists>r. hrv_process E f hp = Inr r"
      by (auto simp: d'(1))
    from Suc.IH [OF d'(2) short this] show ?thesis
      by (simp add: d'(1))
  qed
  moreover from Suc.prems(1) have "d \<noteq> []" by (simp add: uniform_depth_VDict)
  ultimately have "hrv_items E d hp lv = Inl IndexError"
    by (intro hrv_items_first_raises) auto
  then show ?case
    by (simp add: u_compute_hrv_dict.simps [of E d hp])
qed

lemma unanimous_prefix:
  "unanimous (map Some pre @ a) (map Some pre @ b) = map Some pre @ unanimous a b"
  by (induction pre) simp_all

lemma length_unanimous: "length (unanimous a b) = min (length a) (length b)"
  by (induction a b rule: unanimous.induct) simp_all

lemma foldl_unanimous_prefix:
  "(\<forall>b\<in>set bs. \<exists>t. b = map Some pre @ t \<and> length t = k) \<Longrightarrow> length a = k \<Longrightarrow>
   \<exists>t. foldl unanimous (map Some pre @ a) bs = map Some pre @ t \<and> length t = k"
proof (induction bs arbitrary: a)
  case Nil
  then show ?case by simp
next
  case (Cons b bs)
  then obtain t where t: "b = map Some pre @ t" "length t = k" by auto
  have "length (unanimous a t) = k"
    using Cons.prems(2) t(2) by (simp add: length_unanimous)
  with Cons.IH [of "unanimous a t"] Cons.prems(1) show ?case
    by (simp add: t(1) unanimous_prefix)
qed

lemma pd_concat_index_names:
  assumes "pd_concat rs level = Inr r"
      and "\<forall>kr\<in>set rs. \<exists>t. index_names (snd kr) = map Some pre @ t \<and> length t = k"
  shows "\<exists>t. index_names r = Some level # map Some pre @ t \<and> length t = k"
proof (cases rs)
  case Nil
  with assms(1) show ?thesis by (simp add: pd_concat_def)
next
  case (Cons kf rest)
  obtain key f where kf: "kf = (key, f)" by (cases kf)
  from assms(2) obtain a where a: "index_names f = map Some pre @ a" "length a = k"
    by (auto simp: Cons kf)
  have "\<forall>b\<in>set (map index_names (map snd rest)). \<exists>t. b = map Some pre @ t \<and> length t = k"
    using assms(2) by (auto simp: Cons)
  from foldl_unanimous_prefix [OF this a(2)] obtain t where
    t: "foldl unanimous (index_names f) (map index_names (map snd rest)) = map Some pre @ t"
       "length t = k"
    by (auto simp: a(1))
  from a t have "\<exists>t. inner_level_names f (map snd rest) = map Some pre @ t \<and> length t = k"
    unfolding inner_level_names_def by (cases "list_all (\<lambda>g. map fst (rows g) = map fst (rows f)) (map snd rest)") simp_all
  moreover from assms(1) have "index_names r = Some level # inner_level_names f (map snd rest)"
    by (auto simp: pd_concat_def Cons kf split: if_splits)
  ultimately show ?thesis by auto
qed

lemma u_compute_hrv_dict_Inr:
  assumes "u_compute_hrv_dict E d hp lv = Inr r"
  obtains rs level rest where "hrv_items E d hp lv = Inr rs" "lv = level # rest"
    "pd_concat rs level = Inr r"
  using assms
  by (cases "hrv_items E d hp lv"; cases lv) (auto simp: u_compute_hrv_dict.simps [of E d hp])

lemma hrv_index_names:
  "uniform_depth (Suc n) (VDict d) \<Longrightarrow> u_compute_hrv_dict E d hp lv = Inr r \<Longrightarrow>
   (\<forall>f r. hrv_process E f hp = Inr r \<longrightarrow> length (index_names r) = k) \<Longrightarrow>
   Suc n \<le> length lv \<and> (\<exists>t. index_names r = map Some (take (Suc n) lv) @ t \<and> length t = k)"
proof (induction n arbitrary: d lv r)
  case 0
  from 0(2) obtain rs level rest where
    rs: "hrv_items E d hp lv = Inr rs" and lv: "lv = level # rest" and
    cat: "pd_concat rs level = Inr r"
    by (rule u_compute_hrv_dict_Inr)
  have "\<exists>t. index_names (snd kr) = map Some [] @ t \<and> length t = k" if "kr \<in> set rs" for kr
  proof -
    from hrv_items_Inr [OF rs] that obtain kv where
      kv: "kv \<in> set d" "hrv_item E (snd kv) hp lv = Inr (snd kr)" by blast
    from 0(1) kv(1) obtain f where "snd kv = VFrame f"
      by (auto simp: uniform_depth_VDict uniform_depth_0)
    with kv(2) 0(3) show ?thesis by simp
  qed
  then have "\<forall>kr\<in>set rs. \<exists>t. index_names (snd kr) = map Some [] @ t \<and> length t = k"
    by blast
  from pd_concat_index_names [OF cat this] show ?case
    by (simp add: lv)
next
  case (Suc m)
  from Suc.prems(2) obtain rs level rest where
    rs: "hrv_items E d hp lv = Inr rs" and lv: "lv = level # rest" and
    cat: "pd_concat rs level = Inr r"
    by (rule u_compute_hrv_dict_Inr)
  have inner: "Suc m \<le> length rest \<and>
      (\<exists>t. index_names (snd kr) = map Some (take (Suc m) rest) @ t \<and> length t = k)"
    if "kr \<in> set rs" for kr
  proof -
    from hrv_items_Inr [OF rs] that obtain kv where
      kv: "kv \<in> set d" "hrv_item E (snd kv) hp lv = Inr (snd kr)" by blast
    from Suc.prems(1) kv(1) have "uniform_depth (Suc m) (snd kv)"
      by (auto simp: uniform_depth_VDict)
    then obtain d' where d': "snd kv = VDict d'" "uniform_depth (Suc m) (VDict d')"
      by (auto simp: uniform_depth_Suc)
    from kv(2) have "u_compute_hrv_dict E d' hp rest = Inr (snd kr)"
      by (simp add: d'(1) lv)
    from Suc.IH [OF d'(2) this Suc.prems(3)] show ?thesis .
  qed
  from Suc.prems(1) hrv_items_Inr [OF rs] have "rs \<noteq> []"
    by (auto simp: uniform_depth_VDict)
  then obtain kr where "kr \<in> set rs" by (cases rs) auto
  with inner have long: "Suc m \<le> length rest" by blast
  from inner have
    "\<forall>kr\<in>set rs. \<exists>t. index_names (snd kr) = map Some (take (Suc m) rest) @ t \<and> length t = k"
    by blast
  from pd_concat_index_names [OF cat this] long show ?case
    by (simp add: lv)
qed

lemma droplevel_last_Inr:
  "droplevel_last f = Inr r \<Longrightarrow> index_names r = butlast (index_names f) \<and> 2 \<le> length (index_names f)"
  by (auto simp: droplevel_last_def split: if_splits)

lemma hrv_dropped_on_dict:
  assumes "hrv_working_data E p study_part select_phases split_into_subphases params = Inr (VDict d)"
  shows "hrv_dropped E p study_part select_phases split_into_subphases dict_levels hrv_params params =
         ebind (u_compute_hrv_dict E d (case hrv_params of None \<Rightarrow> [] | Some hp \<Rightarrow> hp)
                  (default_dict_levels dict_levels split_into_subphases)) droplevel_last"
  using assms by (simp add: hrv_dropped_def)

text \<open>
  Claim C4, as the code has it. On working data that is a dictionary of uniform nesting depth,
  with as many names in \<^verbatim>\<open>dict_levels\<close> as the dictionary has levels and an HRV function whose
  frames have a single index level, every successful call of \<^verbatim>\<open>compute_hrv_results\<close>
  concatenates the results into a frame with one outer level for each name and the level of the
  HRV function innermost, drops exactly that innermost level, and passes on a frame whose index
  level names are exactly \<^verbatim>\<open>dict_levels\<close>: it is cached as it is, or after
  \<^verbatim>\<open>add_subject_conditions\<close> when that step is on. The method does not compare the number of names
  with the nesting depth; with more names than levels the call succeeds as well and the cached
  frame has fewer levels than \<^verbatim>\<open>dict_levels\<close> has names.
\<close>

theorem hrv_index_levels:
  assumes wd: "hrv_working_data E p study_part select_phases split_into_subphases params = Inr (VDict d)"
      and depth: "uniform_depth (Suc n) (VDict d)"
      and levels: "length (default_dict_levels dict_levels split_into_subphases) = Suc n"
      and one: "\<forall>f r. hrv_process E f (case hrv_params of None \<Rightarrow> [] | Some hp \<Rightarrow> hp) = Inr r \<longrightarrow>
                  length (index_names r) = 1"
      and ok: "compute_hrv_results E p result_id study_part select_phases split_into_subphases
                 add_conditions dict_levels hrv_params params = (None, p')"
  shows "\<exists>full r res.
           u_compute_hrv_dict E d (case hrv_params of None \<Rightarrow> [] | Some hp \<Rightarrow> hp)
             (default_dict_levels dict_levels split_into_subphases) = Inr full
         \<and> length (index_names full) = Suc (length (default_dict_levels dict_levels split_into_subphases))
         \<and> droplevel_last full = Inr r
         \<and> index_names r = butlast (index_names full)
         \<and> index_names r = map Some (default_dict_levels dict_levels split_into_subphases)
         \<and> (if add_conditions
            then add_subject_conditions E (VFrame r)
                   (param_or (case params of None \<Rightarrow> [] | Some ps \<Rightarrow> ps) ''add_conditions'' VNone) =
                 Inr res
            else res = VFrame r)
         \<and> map_of (hrv_results p') result_id = Some res"
proof -
  let ?hp = "case hrv_params of None \<Rightarrow> [] | Some hp \<Rightarrow> hp"
  let ?lv = "default_dict_levels dict_levels split_into_subphases"
  from ok obtain res where
    res: "hrv_results_pipeline E p study_part select_phases split_into_subphases add_conditions
            dict_levels hrv_params params = Inr res" and
    p': "p' = p\<lparr>hrv_results := dict_setitem (hrv_results p) result_id res\<rparr>"
    by (auto simp: compute_hrv_results_def split: sum.splits)
  from res obtain r where
    r: "hrv_dropped E p study_part select_phases split_into_subphases dict_levels hrv_params params = Inr r"
    and res_r: "if add_conditions
            then add_subject_conditions E (VFrame r)
                   (param_or (case params of None \<Rightarrow> [] | Some ps \<Rightarrow> ps) ''add_conditions'' VNone) =
                 Inr res
            else res = VFrame r"
    by (cases "hrv_dropped E p study_part select_phases split_into_subphases dict_levels hrv_params params";
        cases params)
       (auto simp: hrv_results_pipeline_def split: if_splits)
  from r obtain full where
    full: "u_compute_hrv_dict E d ?hp ?lv = Inr full" and drop: "droplevel_last full = Inr r"
    by (cases "u_compute_hrv_dict E d ?hp ?lv") (auto simp: hrv_dropped_on_dict [OF wd])
  from hrv_index_names [OF depth full one] obtain t where
    t: "index_names full = map Some (take (Suc n) ?lv) @ t" "length t = 1"
    by blast
  from t(2) obtain x where x: "t = [x]" by (cases t) auto
  have names: "index_names full = map Some ?lv @ [x]"
    using t(1) levels by (simp add: x)
  have "index_names r = map Some ?lv"
    using droplevel_last_Inr [OF drop] by (simp add: names)
  moreover have "length (index_names full) = Suc (length ?lv)"
    by (simp add: names)
  moreover have "map_of (hrv_results p') result_id = Some res"
    by (simp add: p')
  ultimately show ?thesis
    using full drop droplevel_last_Inr [OF drop] res_r by blast
qed

theorem hrv_index_levels_witness:
  "\<exists>r. index_names r = [Some ''subject'', Some ''phase'']
      \<and> map_of (hrv_results (snd (compute_hrv_results sample_ext hrv_protocol ''hrv'' None False
            False False None None None))) ''hrv'' = Some (VFrame r)"
proof -
  have wd: "hrv_working_data sample_ext hrv_protocol None False False None = Inr (VDict sample_rpeaks)"
    by code_simp
  have depth: "uniform_depth (Suc (Suc 0)) (VDict sample_rpeaks)"
    by code_simp
  have levels: "length (default_dict_levels None False) = Suc (Suc 0)"
    by code_simp
  have one: "\<forall>f r. hrv_process sample_ext f (case None of None \<Rightarrow> [] | Some hp \<Rightarrow> hp) = Inr r \<longrightarrow>
               length (index_names r) = 1"
    by (auto simp: sample_ext_def)
  have "fst (compute_hrv_results sample_ext hrv_protocol ''hrv'' None False False False None None
          None) = None"
    by code_simp
  then have ok: "compute_hrv_results sample_ext hrv_protocol ''hrv'' None False False False None
      None None =
    (None, snd (compute_hrv_results sample_ext hrv_protocol ''hrv'' None False False False None
      None None))"
    by (metis prod.collapse)
  have names: "map Some (default_dict_levels None False) = [Some ''subject'', Some ''phase'']"
    by code_simp
  from hrv_index_levels [OF wd depth levels one ok] show ?thesis
    unfolding names by auto
qed

theorem hrv_index_levels_counterexample:
  "uniform_depth (Suc (Suc 0)) (VDict sample_rpeaks)
   \<and> compute_hrv_results sample_ext hrv_protocol ''hrv'' None False False False
       (Some [''subject'', ''phase'', ''subphase'']) None None =
     (None, hrv_protocol\<lparr>hrv_results :=
        [(''hrv'', VFrame \<lparr> index_names = [Some ''subject'', Some ''phase''],
                           columns = [''HRV_RMSSD''],
                           rows = [([LStr ''Vp01'', LStr ''Stress''], ()),
                                   ([LStr ''Vp01'', LStr ''Rest''], ()),
                                   ([LStr ''Vp02'', LStr ''Stress''], ())] \<rparr>)]\<rparr>)
   \<and> [Some ''subject'', Some ''phase''] \<noteq> map Some [''subject'', ''phase'', ''subphase'']"
  by code_simp

text \<open>
  Claim C5, as the code has it. \<^verbatim>\<open>_compute_hrv_dict\<close> never compares \<^verbatim>\<open>dict_levels\<close> with the
  nesting depth and raises no \<^verbatim>\<open>ConfigurationError\<close>. On a dictionary of uniform nesting depth:
  with fewer names than levels (and an HRV function that succeeds on every leaf of the
  dictionary) the call raises \<^verbatim>\<open>IndexError\<close>, from \<^verbatim>\<open>dict_levels[0]\<close> on the exhausted
  list, and leaves the object as it was; with more names than levels the surplus names are ignored, so the call behaves
  exactly as with the list cut to the depth.
\<close>

theorem hrv_depth_mismatch:
  assumes wd: "hrv_working_data E p study_part select_phases split_into_subphases params = Inr (VDict d)"
      and depth: "uniform_depth (Suc n) (VDict d)"
  shows "(length (default_dict_levels dict_levels split_into_subphases) \<le> n \<and>
          (\<forall>f\<in>set (leaf_frames (VDict d)).
             \<exists>r. hrv_process E f (case hrv_params of None \<Rightarrow> [] | Some hp \<Rightarrow> hp) = Inr r) \<longrightarrow>
          compute_hrv_results E p result_id study_part select_phases split_into_subphases
            add_conditions dict_levels hrv_params params = (Some IndexError, p))
       \<and> (Suc n \<le> length (default_dict_levels dict_levels split_into_subphases) \<longrightarrow>
          compute_hrv_results E p result_id study_part select_phases split_into_subphases
            add_conditions dict_levels hrv_params params =
          compute_hrv_results E p result_id study_part select_phases split_into_subphases
            add_conditions
            (Some (take (Suc n) (default_dict_levels dict_levels split_into_subphases)))
            hrv_params params)"
proof -
  let ?hp = "case hrv_params of None \<Rightarrow> [] | Some hp \<Rightarrow> hp"
  let ?lv = "default_dict_levels dict_levels split_into_subphases"
  have short: "compute_hrv_results E p result_id study_part select_phases split_into_subphases
            add_conditions dict_levels hrv_params params = (Some IndexError, p)"
    if "length ?lv \<le> n" "\<forall>f\<in>set (leaf_frames (VDict d)). \<exists>r. hrv_process E f ?hp = Inr r"
  proof -
    from missing_levels_raise [OF depth that] have "u_compute_hrv_dict E d ?hp ?lv = Inl IndexError" .
    then show ?thesis
      by (simp add: compute_hrv_results_def hrv_results_pipeline_def hrv_dropped_on_dict [OF wd])
  qed
  have long: "compute_hrv_results E p result_id study_part select_phases split_into_subphases
            add_conditions dict_levels hrv_params params =
          compute_hrv_results E p result_id study_part select_phases split_into_subphases
            add_conditions (Some (take (Suc n) ?lv)) hrv_params params"
    if "Suc n \<le> length ?lv"
  proof -
    have "default_dict_levels (Some (take (Suc n) ?lv)) split_into_subphases = take (Suc n) ?lv"
      by (simp add: default_dict_levels_def)
    with surplus_levels_ignored [OF depth that, of E ?hp] show ?thesis
      by (simp add: compute_hrv_results_def hrv_results_pipeline_def hrv_dropped_on_dict [OF wd])
  qed
  from short long show ?thesis by blast
qed


theorem hrv_depth_mismatch_witness:
  "compute_hrv_results picky_ext hrv_protocol ''hrv'' None False False False (Some [''subject''])
     None None = (Some IndexError, hrv_protocol)
   \<and> compute_hrv_results picky_ext hrv_protocol ''hrv'' None False False False
       (Some [''subject'', ''phase'', ''subphase'']) None None =
     compute_hrv_results picky_ext hrv_protocol ''hrv'' None False False False
       (Some [''subject'', ''phase'']) None None
   \<and> hrv_process picky_ext \<lparr> index_names = [None], columns = [], rows = [] \<rparr> [] = Inl ValueError"
proof -
  have wd: "hrv_working_data picky_ext hrv_protocol None False False None = Inr (VDict sample_rpeaks)"
    by code_simp
  have depth: "uniform_depth (Suc (Suc 0)) (VDict sample_rpeaks)"
    by code_simp
  have leaves: "\<forall>f\<in>set (leaf_frames (VDict sample_rpeaks)).
                  \<exists>r. hrv_process picky_ext f (case None of None \<Rightarrow> [] | Some hp \<Rightarrow> hp) = Inr r"
    by (simp add: picky_ext_def sample_rpeaks_def rpeak_frame_def)
  have picky: "hrv_process picky_ext \<lparr> index_names = [None], columns = [], rows = [] \<rparr> [] =
               Inl ValueError"
    by (simp add: picky_ext_def)
  show ?thesis
    using hrv_depth_mismatch [OF wd depth, of "Some [''subject'']" None "''hrv''" False]
      hrv_depth_mismatch [OF wd depth, of "Some [''subject'', ''phase'', ''subphase'']" None
        "''hrv''" False]
      leaves picky
    by (simp add: default_dict_levels_def)
qed

theorem hrv_depth_mismatch_counterexample:
  "uniform_depth (Suc (Suc 0)) (VDict sample_rpeaks)
   \<and> length [''subject'', ''phase'', ''subphase''] \<noteq> Suc (Suc 0)
   \<and> fst (compute_hrv_results sample_ext hrv_protocol ''hrv'' None False False False
        (Some [''subject'', ''phase'', ''subphase'']) None None) = None
   \<and> length [''subject''] \<noteq> Suc (Suc 0)
   \<and> fst (compute_hrv_results sample_ext hrv_protocol ''hrv'' None False False False
        (Some [''subject'']) None None) = Some IndexError"
  by code_simp

declare u_add_saliva_data.simps [simp del]

lemma per_saliva_type_VDict [simp]: "per_saliva_type types (VDict d) = Inr d"
  by (simp add: per_saliva_type_def)

text \<open>
  Claim C10. \<^verbatim>\<open>add_saliva_data\<close> writes the saliva types, the test times (when test times were
  passed) and the sample times before it validates the saliva data. When the sample time
  resolver has returned and \<^verbatim>\<open>_add_saliva_data\<close> then raises a \<^verbatim>\<open>ValidationError\<close>, the call
  raises it and leaves the object with the three attributes already overwritten or updated,
  and with the saliva data as they were: a partially updated object, not the old one.
\<close>

theorem add_saliva_data_partial_update:
  assumes "data \<noteq> VNone"
      and "per_saliva_type (saliva_type_list data saliva_type) stimes = Inr stimes1"
      and "per_saliva_type (saliva_type_list data saliva_type) data = Inr data1"
      and "u_get_sample_times E data1 stimes1 (if tt \<noteq> VNone then tt else test_times p) = Inr resolved"
      and "u_add_saliva_data E (VDict data1) (saliva_type_list data saliva_type)
             (VDict (dict_update (sample_times p) resolved)) = Inl (ValidationError keys)"
  shows "add_saliva_data E p data saliva_type stimes tt =
         (Some (ValidationError keys),
          p\<lparr> saliva_types := saliva_type_list data saliva_type,
             test_times := (if tt \<noteq> VNone then tt else test_times p),
             sample_times := dict_update (sample_times p) resolved \<rparr>)"
proof (cases "tt = VNone")
  case True
  with assms show ?thesis by (simp add: add_saliva_data_def)
next
  case False
  with assms show ?thesis by (simp add: add_saliva_data_def)
qed

lemma dict_setitem_fresh: "k \<notin> fst ` set d \<Longrightarrow> dict_setitem d k v = d @ [(k, v)]"
  by (induction d) (auto simp: dict_setitem_def)

lemma dict_update_distinct:
  "distinct (map fst (acc @ d)) \<Longrightarrow> dict_update acc d = acc @ d"
proof (induction d arbitrary: acc)
  case Nil
  then show ?case by simp
next
  case (Cons kv d)
  obtain k v where kv: "kv = (k, v)" by (cases kv)
  from Cons.prems have fresh: "k \<notin> fst ` set acc" by (auto simp: kv)
  from Cons.prems have "distinct (map fst ((acc @ [(k, v)]) @ d))" by (simp add: kv)
  from Cons.IH [OF this] show ?case by (simp add: kv dict_setitem_fresh [OF fresh])
qed

lemma map_of_dict_update: "map_of (dict_update d m) = map_of d ++ map_of (rev m)"
proof (induction m arbitrary: d)
  case Nil
  then show ?case by simp
next
  case (Cons kv m)
  obtain k v where kv: "kv = (k, v)" by (cases kv)
  have "map_of (dict_update d (kv # m)) = map_of (dict_setitem d k v) ++ map_of (rev m)"
    by (simp only: kv dict_update.simps Cons.IH)
  also have "\<dots> = map_of d ++ map_of (rev (kv # m))"
    by (rule ext) (auto simp: kv map_add_def split: option.splits)
  finally show ?case .
qed

lemma map_of_dict_update_entry:
  assumes "distinct (map fst m)" "(k, v) \<in> set m"
  shows "map_of (dict_update d m) k = Some v"
proof -
  have "distinct (map fst (rev m))" using assms(1) by (simp add: rev_map [symmetric])
  moreover have "(k, v) \<in> set (rev m)" using assms(2) by simp
  ultimately have "map_of (rev m) k = Some v" by (rule map_of_is_SomeI)
  then show ?thesis by (simp add: map_of_dict_update map_add_def)
qed

lemma first_mismatch_Some:
  "first_mismatch es = Some (ty, subject) \<Longrightarrow>
   \<exists>f ts n. (ty, f, ts) \<in> set es \<and> (subject, n) \<in> set (samples_per_subject f) \<and> n \<noteq> length ts"
proof (induction es)
  case Nil
  then show ?case by simp
next
  case (Cons e es)
  obtain ty' f ts where e: "e = (ty', f, ts)" by (cases e)
  show ?case
  proof (cases "sample_times_mismatch f (length ts)")
    case None
    with Cons show ?thesis by (auto simp: e)
  next
    case (Some s)
    with Cons.prems have eq: "ty' = ty" "s = subject" by (simp_all add: e)
    from Some obtain sn where "find (\<lambda>sn. snd sn \<noteq> length ts) (samples_per_subject f) = Some sn"
      "fst sn = s"
      by (auto simp: sample_times_mismatch_def)
    then have "sn \<in> set (samples_per_subject f)" "snd sn \<noteq> length ts"
      by (auto simp: find_Some_iff)
    with \<open>fst sn = s\<close> eq show ?thesis
      by (cases sn) (auto simp: e)
  qed
qed

lemma first_mismatch_None:
  "first_mismatch es = None \<longleftrightarrow>
   (\<forall>e\<in>set es. \<forall>sn\<in>set (samples_per_subject (fst (snd e))). snd sn = length (snd (snd e)))"
proof (induction es)
  case Nil
  then show ?case by simp
next
  case (Cons e es)
  obtain ty f ts where e: "e = (ty, f, ts)" by (cases e)
  have "sample_times_mismatch f (length ts) = None \<longleftrightarrow>
        (\<forall>sn\<in>set (samples_per_subject f). snd sn = length ts)"
    by (auto simp: sample_times_mismatch_def find_None_iff)
  with Cons show ?case
    by (auto simp: e split: option.splits)
qed

lemma entry_times:
  assumes "distinct (map fst entries)" "(ty, f, ts) \<in> set entries"
  shows "dict_getitem (map (\<lambda>e. (fst e, VList (snd (snd e)))) entries) ty = Inr (VList ts)"
proof -
  have "distinct (map fst (map (\<lambda>e. (fst e, VList (snd (snd e)))) entries))"
    using assms(1) by (simp add: comp_def)
  moreover have "(ty, VList ts) \<in> set (map (\<lambda>e. (fst e, VList (snd (snd e)))) entries)"
    using assms(2) by force
  ultimately have "map_of (map (\<lambda>e. (fst e, VList (snd (snd e)))) entries) ty = Some (VList ts)"
    by (rule map_of_is_SomeI)
  then show ?thesis by (simp add: dict_getitem_def)
qed

lemma resolve_sample_times_explicit:
  "resolve_sample_times conv infer ty (VFrame f) (VList ts) tt =
     (case sample_times_mismatch f (length ts) of
        Some subject \<Rightarrow> Inl (ValidationError [LStr ty, subject])
      | None \<Rightarrow> Inr (conv (VList ts) tt))"
  by (simp add: resolve_sample_times_def)

lemma spec_get_sample_times_entries:
  assumes "distinct (map fst entries)"
  shows "set es \<subseteq> set entries \<Longrightarrow>
    spec_get_sample_times conv infer (map (\<lambda>e. (fst e, VFrame (fst (snd e)))) es)
      (map (\<lambda>e. (fst e, VList (snd (snd e)))) entries) tt =
    (case first_mismatch es of
       Some (ty, subject) \<Rightarrow> Inl (ValidationError [LStr ty, subject])
     | None \<Rightarrow> Inr (map (\<lambda>e. (fst e, conv (VList (snd (snd e))) tt)) es))"
proof (induction es)
  case Nil
  then show ?case by simp
next
  case (Cons e es)
  obtain ty f ts where e: "e = (ty, f, ts)" by (cases e)
  from Cons.prems have "(ty, f, ts) \<in> set entries" by (simp add: e)
  from entry_times [OF assms this] have
    given: "dict_getitem (map (\<lambda>e. (fst e, VList (snd (snd e)))) entries) ty = Inr (VList ts)" .
  from Cons have IH: "spec_get_sample_times conv infer (map (\<lambda>e. (fst e, VFrame (fst (snd e)))) es)
      (map (\<lambda>e. (fst e, VList (snd (snd e)))) entries) tt =
    (case first_mismatch es of
       Some (ty, subject) \<Rightarrow> Inl (ValidationError [LStr ty, subject])
     | None \<Rightarrow> Inr (map (\<lambda>e. (fst e, conv (VList (snd (snd e))) tt)) es))"
    by simp
  show ?case
    by (simp add: e given resolve_sample_times_explicit IH split: option.splits)
qed

lemma add_saliva_items_entries:
  assumes check: "u_check_sample_times_match E = spec_check_sample_times_match"
      and len: "\<forall>given. py_len (conv given tt) = py_len given"
  shows "(\<forall>e\<in>set es. map_of T (fst e) = Some (conv (VList (snd (snd e))) tt)) \<Longrightarrow>
    first_mismatch es = None \<Longrightarrow>
    (\<forall>e\<in>set es. is_saliva_mean_se_dataframe E (VFrame (fst (snd e))) \<or>
                 is_saliva_raw_dataframe E (VFrame (fst (snd e))) (VStr (fst e))) \<Longrightarrow>
    add_saliva_items E (map (\<lambda>e. (fst e, VFrame (fst (snd e)))) es) (VDict T) acc =
    Inr (dict_update acc (map (\<lambda>e. (fst e, VFrame (fst (snd e)))) es))"
proof (induction es arbitrary: acc)
  case Nil
  then show ?case by simp
next
  case (Cons e es)
  obtain ty f ts where e: "e = (ty, f, ts)" by (cases e)
  from Cons.prems(1) have given: "dict_getitem T ty = Inr (conv (VList ts) tt)"
    by (simp add: e dict_getitem_def)
  from Cons.prems(2) have ok: "sample_times_mismatch f (length ts) = None"
    and rest: "first_mismatch es = None"
    by (simp_all add: e split: option.splits)
  from Cons.prems(3) have guard:
    "is_saliva_mean_se_dataframe E (VFrame f) \<or> is_saliva_raw_dataframe E (VFrame f) (VStr ty)"
    by (simp add: e)
  have "py_len (conv (VList ts) tt) = Some (length ts)"
    using len by simp
  then have "spec_check_sample_times_match (VFrame f) (conv (VList ts) tt) = None"
    by (simp add: spec_check_sample_times_match_def ok)
  with guard have one: "u_add_saliva_data E (VFrame f) (VStr ty) (conv (VList ts) tt) = Inr (VFrame f)"
    by (auto simp: u_add_saliva_data.simps check)
  from Cons.prems have IH: "add_saliva_items E (map (\<lambda>e. (fst e, VFrame (fst (snd e)))) es) (VDict T)
      (dict_setitem acc ty (VFrame f)) =
    Inr (dict_update (dict_setitem acc ty (VFrame f)) (map (\<lambda>e. (fst e, VFrame (fst (snd e)))) es))"
    by (intro Cons.IH) (simp_all add: rest)
  show ?case
    by (simp add: e given one IH)
qed

text \<open>
  Claim C6, on the two sample time helpers as modelled from the spec. For saliva data that are
  one frame for each saliva type, with sample times given for each type (passed as dictionaries,
  or as one frame and one list for the given saliva types): if for some type and
  some subject the number of samples differs from the number of sample times, the call raises
  a \<^verbatim>\<open>ValidationError\<close> that names a saliva type and a subject for which they differ, and
  stores no saliva data; if the numbers agree for every type and subject (the conversion to
  absolute times keeps the number of times, and every frame passes one of the two type guards),
  the call returns and stores the data.
\<close>

theorem add_saliva_data_validates_sample_times:
  fixes entries :: "(string \<times> 'c frame \<times> 'c pyval list) list"
  assumes keys: "distinct (map fst entries)"
      and present: "data \<noteq> VNone"
      and data: "per_saliva_type (saliva_type_list data saliva_type) data =
                 Inr (map (\<lambda>e. (fst e, VFrame (fst (snd e)))) entries)"
      and given: "per_saliva_type (saliva_type_list data saliva_type) stimes =
                  Inr (map (\<lambda>e. (fst e, VList (snd (snd e)))) entries)"
      and resolver: "u_get_sample_times E = spec_get_sample_times conv infer"
      and check: "u_check_sample_times_match E = spec_check_sample_times_match"
  shows "((\<exists>e\<in>set entries. \<exists>sn\<in>set (samples_per_subject (fst (snd e))).
             snd sn \<noteq> length (snd (snd e))) \<longrightarrow>
          (\<exists>ty subject.
             fst (add_saliva_data E p data saliva_type stimes tt) =
               Some (ValidationError [LStr ty, subject])
           \<and> (\<exists>f ts n. (ty, f, ts) \<in> set entries \<and> (subject, n) \<in> set (samples_per_subject f)
                 \<and> n \<noteq> length ts)
           \<and> saliva_data (snd (add_saliva_data E p data saliva_type stimes tt)) = saliva_data p))
       \<and> ((\<forall>e\<in>set entries. \<forall>sn\<in>set (samples_per_subject (fst (snd e))).
             snd sn = length (snd (snd e)))
          \<and> (\<forall>times. py_len (conv times (if tt \<noteq> VNone then tt else test_times p)) = py_len times)
          \<and> (\<forall>e\<in>set entries. is_saliva_mean_se_dataframe E (VFrame (fst (snd e))) \<or>
                 is_saliva_raw_dataframe E (VFrame (fst (snd e))) (VStr (fst e))) \<longrightarrow>
          fst (add_saliva_data E p data saliva_type stimes tt) = None
          \<and> saliva_data (snd (add_saliva_data E p data saliva_type stimes tt)) =
              dict_update (saliva_data p) (map (\<lambda>e. (fst e, VFrame (fst (snd e)))) entries))"
proof -
  let ?tt = "if tt \<noteq> VNone then tt else test_times p"
  let ?sd = "map (\<lambda>e. (fst e, VFrame (fst (snd e)))) entries"
  let ?st = "map (\<lambda>e. (fst e, VList (snd (snd e)))) entries"
  let ?out = "add_saliva_data E p data saliva_type stimes tt"
  have resolved: "u_get_sample_times E ?sd ?st ?tt =
    (case first_mismatch entries of
       Some (ty, subject) \<Rightarrow> Inl (ValidationError [LStr ty, subject])
     | None \<Rightarrow> Inr (map (\<lambda>e. (fst e, conv (VList (snd (snd e))) ?tt)) entries))"
    unfolding resolver by (rule spec_get_sample_times_entries [OF keys]) simp
  have bad: "\<exists>ty subject.
             fst ?out = Some (ValidationError [LStr ty, subject])
           \<and> (\<exists>f ts n. (ty, f, ts) \<in> set entries \<and> (subject, n) \<in> set (samples_per_subject f)
                 \<and> n \<noteq> length ts)
           \<and> saliva_data (snd ?out) = saliva_data p"
    if "\<exists>e\<in>set entries. \<exists>sn\<in>set (samples_per_subject (fst (snd e))). snd sn \<noteq> length (snd (snd e))"
  proof -
    from that have "first_mismatch entries \<noteq> None"
      by (simp add: first_mismatch_None)
    then obtain ty subject where first: "first_mismatch entries = Some (ty, subject)"
      by (cases "first_mismatch entries") auto
    from resolved have "u_get_sample_times E ?sd ?st ?tt = Inl (ValidationError [LStr ty, subject])"
      by (simp add: first)
    then have "fst ?out = Some (ValidationError [LStr ty, subject])"
      "saliva_data (snd ?out) = saliva_data p"
      using present by (cases "tt = VNone"; simp add: add_saliva_data_def data given)+
    with first_mismatch_Some [OF first] show ?thesis by blast
  qed
  have good: "fst ?out = None \<and> saliva_data (snd ?out) = dict_update (saliva_data p) ?sd"
    if match: "\<forall>e\<in>set entries. \<forall>sn\<in>set (samples_per_subject (fst (snd e))).
             snd sn = length (snd (snd e))"
      and len: "\<forall>times. py_len (conv times ?tt) = py_len times"
      and guards: "\<forall>e\<in>set entries. is_saliva_mean_se_dataframe E (VFrame (fst (snd e))) \<or>
                 is_saliva_raw_dataframe E (VFrame (fst (snd e))) (VStr (fst e))"
  proof -
    let ?res = "map (\<lambda>e. (fst e, conv (VList (snd (snd e))) ?tt)) entries"
    let ?T = "dict_update (sample_times p) ?res"
    from match have none: "first_mismatch entries = None"
      by (simp add: first_mismatch_None)
    with resolved have get: "u_get_sample_times E ?sd ?st ?tt = Inr ?res"
      by simp
    have "distinct (map fst ?res)"
      using keys by (simp add: comp_def)
    then have "\<forall>e\<in>set entries. map_of ?T (fst e) = Some (conv (VList (snd (snd e))) ?tt)"
      by (intro ballI map_of_dict_update_entry) auto
    from add_saliva_items_entries [where conv = conv and tt = "?tt" and acc = "[]",
        OF check len this none guards]
    have "add_saliva_items E ?sd (VDict ?T) [] = Inr (dict_update [] ?sd)" .
    moreover have "dict_update [] ?sd = ?sd"
      using keys by (intro dict_update_distinct [of "[]", simplified]) (simp add: comp_def)
    ultimately have added: "u_add_saliva_data E (VDict ?sd) ty (VDict ?T) = Inr (VDict ?sd)" for ty
      by (simp add: u_add_saliva_data.simps)
    show ?thesis
      using get added present
      by (cases "tt = VNone") (simp_all add: add_saliva_data_def data given Let_def)
  qed
  from bad good show ?thesis by blast
qed

theorem add_saliva_data_partial_update_witness:
  "add_saliva_data saliva_ext sample_protocol (VFrame cortisol_frame) (VStr ''amylase'')
     (VList five_times) (VList [VInt 0, VInt 900]) =
   (Some (ValidationError []),
    sample_protocol\<lparr> saliva_types := VList [VStr ''amylase''],
                      test_times := VList [VInt 0, VInt 900],
                      sample_times := [(''amylase'', VList five_times)] \<rparr>)"
proof -
  have types: "saliva_type_list (VFrame cortisol_frame) (VStr ''amylase'') = VList [VStr ''amylase'']"
    by code_simp
  have a1: "VFrame cortisol_frame \<noteq> (VNone :: unit pyval)"
    by simp
  have mm: "sample_times_mismatch cortisol_frame (length five_times) = None"
    by code_simp
  have a2: "per_saliva_type (saliva_type_list (VFrame cortisol_frame) (VStr ''amylase''))
              (VList five_times) = Inr [(''amylase'', VList five_times)]"
    by code_simp
  have a3: "per_saliva_type (saliva_type_list (VFrame cortisol_frame) (VStr ''amylase''))
              (VFrame cortisol_frame) = Inr [(''amylase'', VFrame cortisol_frame)]"
    by code_simp
  have a4: "u_get_sample_times saliva_ext [(''amylase'', VFrame cortisol_frame)]
              [(''amylase'', VList five_times)]
              (if VList [VInt 0, VInt 900] \<noteq> VNone then VList [VInt 0, VInt 900]
               else test_times sample_protocol) =
            Inr [(''amylase'', VList five_times)]"
    by (simp add: saliva_ext_def resolve_sample_times_def dict_getitem_def mm)
  have stored: "dict_setitem (sample_times sample_protocol) ''amylase'' v = [(''amylase'', v)]" for v
    by (simp add: sample_protocol_def init_protocol_def dict_setitem_def)
  have a5: "u_add_saliva_data saliva_ext (VDict [(''amylase'', VFrame cortisol_frame)])
              (saliva_type_list (VFrame cortisol_frame) (VStr ''amylase''))
              (VDict (dict_update (sample_times sample_protocol) [(''amylase'', VList five_times)])) =
            Inl (ValidationError [])"
    by code_simp
  show ?thesis
    using add_saliva_data_partial_update [OF a1 a2 a3 a4 a5]
    by (simp add: types stored)
qed

theorem add_saliva_data_validates_sample_times_witness:
  "(\<exists>ty subject.
      fst (add_saliva_data saliva_ext sample_protocol (VDict [(''cortisol'', VFrame cortisol_frame)])
             VNone (VDict [(''cortisol'', VList (tl five_times))]) VNone) =
      Some (ValidationError [LStr ty, subject]))
   \<and> fst (add_saliva_data saliva_ext sample_protocol (VFrame cortisol_frame) (VStr ''cortisol'')
           (VList five_times) (VList [VInt 0, VInt 900])) = None
   \<and> saliva_data (snd (add_saliva_data saliva_ext sample_protocol (VFrame cortisol_frame)
           (VStr ''cortisol'') (VList five_times) (VList [VInt 0, VInt 900]))) =
     [(''cortisol'', VFrame cortisol_frame)]"
proof -
  have resolver: "u_get_sample_times saliva_ext = spec_get_sample_times (\<lambda>given tt. given) (\<lambda>f. VList [])"
    and check: "u_check_sample_times_match saliva_ext = spec_check_sample_times_match"
    by (simp_all add: saliva_ext_def)
  have counts: "samples_per_subject cortisol_frame = [(LStr ''Vp01'', 5), (LStr ''Vp02'', 5)]"
    by code_simp
  have guard: "is_saliva_raw_dataframe saliva_ext (VFrame cortisol_frame) (VStr ''cortisol'')"
    by code_simp
  have stored: "dict_setitem (saliva_data sample_protocol) ''cortisol'' v = [(''cortisol'', v)]" for v
    by (simp add: sample_protocol_def init_protocol_def dict_setitem_def)
  have four: "length (tl five_times) = 4" and five: "length five_times = 5"
    by (simp_all add: five_times_def)
  have single: "per_saliva_type (saliva_type_list (VFrame cortisol_frame) (VStr ''cortisol'')) x =
                (case x of VDict d \<Rightarrow> Inr d | _ \<Rightarrow> Inr [(''cortisol'', x)])" for x :: "unit pyval"
    by (cases x) (simp_all add: per_saliva_type_def saliva_type_list_def dict_setitem_def)
  show ?thesis
    using add_saliva_data_validates_sample_times
        [of "[(''cortisol'', cortisol_frame, tl five_times)]"
            "VDict [(''cortisol'', VFrame cortisol_frame)]" VNone
            "VDict [(''cortisol'', VList (tl five_times))]"
            saliva_ext "\<lambda>given tt. given" "\<lambda>f. VList []" sample_protocol VNone]
      add_saliva_data_validates_sample_times
        [of "[(''cortisol'', cortisol_frame, five_times)]"
            "VFrame cortisol_frame" "VStr ''cortisol''" "VList five_times"
            saliva_ext "\<lambda>given tt. given" "\<lambda>f. VList []" sample_protocol
            "VList [VInt 0, VInt 900]"]
      resolver check guard
    by (auto simp: counts four five stored single)
qed

lemma json_load_items_keys: "map fst (json_load_items kjs) = map fst kjs"
  by (induction kjs) auto

lemma json_dump_items_keys: "json_dump_items kvs = Some kjs \<Longrightarrow> map fst kjs = map fst kvs"
  by (induction kvs arbitrary: kjs) (auto split: option.splits)

lemma json_round_trip:
  fixes v :: "'c pyval" and xs :: "'c pyval list" and kvs :: "'c pydict"
  shows
  "(json_exact v \<longrightarrow> (\<exists>j. json_dump v = Some j \<and> json_load j = v))"
  "(json_exact_list xs \<longrightarrow> (\<exists>js. json_dump_list xs = Some js \<and> json_load_list js = xs))"
  "(json_exact_items kvs \<longrightarrow> (\<exists>kjs. json_dump_items kvs = Some kjs \<and> json_load_items kjs = kvs))"
proof (induction v and xs and kvs rule: json_dump_json_dump_list_json_dump_items.induct)
  case (8 kvs)
  show ?case
  proof
    assume ex: "json_exact (VDict kvs)"
    with 8 obtain kjs where kjs: "json_dump_items kvs = Some kjs" "json_load_items kjs = kvs"
      by auto
    from ex have "distinct (map fst ([] @ kvs))" by simp
    then have "dict_update [] kvs = kvs"
      by (simp add: dict_update_distinct del: append_Nil)
    with kjs show "\<exists>j. json_dump (VDict kvs) = Some j \<and> json_load j = VDict kvs"
      by simp
  qed
qed auto

text \<open>
  Claim C3, as the code has it. For every protocol whose name, structure and test times are
  values that JSON represents without loss (\<^verbatim>\<open>None\<close>, truth values, integers, floating point
  numbers other than not a number, strings, and lists and dictionaries of such values; no
  tuple among them), and whose test times are not \<^verbatim>\<open>None\<close> (the constructor replaces
  \<^verbatim>\<open>None\<close>), \<^verbatim>\<open>to_file\<close> on a path with the extension \<^verbatim>\<open>.json\<close> writes a JSON object with exactly the three fields \<^verbatim>\<open>name\<close>, \<^verbatim>\<open>structure\<close> and
  \<^verbatim>\<open>test_times\<close>, and none of the data or caches, and \<^verbatim>\<open>from_file\<close> on the written file returns a
  protocol with the same name, structure and test times.
\<close>

theorem to_file_from_file_round_trip:
  assumes ext: "u_assert_file_extension E file_path ''.json'' = None"
      and exact: "json_exact (name p)" "json_exact (protocol_structure p)" "json_exact (test_times p)"
      and tt: "test_times p \<noteq> VNone"
  shows "\<exists>jn js jt q.
           json_dump (name p) = Some jn \<and> json_dump (protocol_structure p) = Some js
         \<and> json_dump (test_times p) = Some jt
         \<and> to_file E p file_path fs =
             (None, dict_setitem fs file_path
                      (Document (JObj [(''name'', jn), (''structure'', js), (''test_times'', jt)])))
         \<and> from_file E file_path (snd (to_file E p file_path fs)) = Inr q
         \<and> name q = name p \<and> protocol_structure q = protocol_structure p
         \<and> test_times q = test_times p"
proof -
  from json_round_trip(1) [of "name p"] exact(1) obtain jn where
    jn: "json_dump (name p) = Some jn" "json_load jn = name p"
    by auto
  from json_round_trip(1) [of "protocol_structure p"] exact(2) obtain js where
    js: "json_dump (protocol_structure p) = Some js" "json_load js = protocol_structure p"
    by auto
  from json_round_trip(1) [of "test_times p"] exact(3) obtain jt where
    jt: "json_dump (test_times p) = Some jt" "json_load jt = test_times p"
    by auto
  let ?doc = "JObj [(''name'', jn), (''structure'', js), (''test_times'', jt)]"
  let ?q = "init_protocol (name p) (protocol_structure p) (test_times p) []"
  have dumped: "json_dump (VDict [(''name'', name p), (''structure'', protocol_structure p),
                  (''test_times'', test_times p)]) = Some ?doc"
    by (simp add: jn(1) js(1) jt(1))
  have written: "to_file E p file_path fs = (None, dict_setitem fs file_path (Document ?doc))"
    by (simp add: to_file_def ext dumped del: json_dump.simps)
  have loaded: "json_load ?doc = VDict [(''name'', name p), (''structure'', protocol_structure p),
                  (''test_times'', test_times p)]"
    by (simp add: jn(2) js(2) jt(2) dict_setitem_def)
  have "from_file E file_path (dict_setitem fs file_path (Document ?doc)) = Inr ?q"
    by (simp add: from_file_def ext loaded del: json_load.simps)
  then have read: "from_file E file_path (snd (to_file E p file_path fs)) = Inr ?q"
    by (simp add: written)
  have same: "name ?q = name p" "protocol_structure ?q = protocol_structure p"
    "test_times ?q = test_times p"
    using tt by (simp_all add: init_protocol_def)
  from jn(1) js(1) jt(1) written read same show ?thesis by blast
qed

theorem to_file_from_file_round_trip_witness:
  "\<exists>q. from_file sample_ext ''base.json'' (snd (to_file sample_ext list_protocol ''base.json'' [])) =
         Inr q
      \<and> name q = VStr ''Base'' \<and> protocol_structure q = tsst_structure
      \<and> test_times q = VList [VInt 0, VFloat (Finite 1801 (- 1))]"
proof -
  have ext: "u_assert_file_extension sample_ext ''base.json'' ''.json'' = None"
    by (simp add: sample_ext_def)
  have fields: "name list_protocol = VStr ''Base''" "protocol_structure list_protocol = tsst_structure"
    "test_times list_protocol = VList [VInt 0, VFloat (Finite 1801 (- 1))]"
    by (simp_all add: list_protocol_def init_protocol_def)
  have exact: "json_exact (name list_protocol)" "json_exact (protocol_structure list_protocol)"
    "json_exact (test_times list_protocol)"
    by (simp_all add: fields tsst_structure_def)
  have tt: "test_times list_protocol \<noteq> VNone"
    by (simp add: fields)
  from to_file_from_file_round_trip [OF ext exact tt, of "[]"] show ?thesis
    by (auto simp: fields)
qed

theorem to_file_from_file_round_trip_counterexample:
  "json_dump (name tuple_protocol) = Some (JStr ''Base'')
   \<and> json_dump (test_times tuple_protocol) = Some (JArr [JInt 0, JInt 900])
   \<and> json_dump (protocol_structure tuple_protocol) =
       Some (JObj [(''Before'', JNull),
                   (''TSST'', JObj [(''Preparation'', JInt 300), (''Talk'', JInt 300),
                                    (''Math'', JInt 300)]),
                   (''After'', JNull)])
   \<and> fst (to_file sample_ext tuple_protocol ''base.json'' []) = None
   \<and> from_file sample_ext ''base.json'' (snd (to_file sample_ext tuple_protocol ''base.json'' [])) =
       Inr (tuple_protocol\<lparr>test_times := VList [VInt 0, VInt 900]\<rparr>)
   \<and> test_times tuple_protocol = VTuple [VInt 0, VInt 900]
   \<and> VList [VInt 0, VInt 900] \<noteq> (VTuple [VInt 0, VInt 900] :: unit pyval)"
  by (simp add: tuple_protocol_def tsst_structure_def init_protocol_def to_file_def from_file_def
        sample_ext_def dict_setitem_def)

lemma ebind_cong:
  "m = m' \<Longrightarrow> (\<And>x. m' = Inr x \<Longrightarrow> f x = g x) \<Longrightarrow> ebind m f = ebind m' g"
  by (cases m') simp_all

lemma run_steps_append: "run_steps (pre @ post) d = ebind (run_steps pre d) (run_steps post)"
proof (induction pre arbitrary: d)
  case Nil
  then show ?case by simp
next
  case (Cons a pre)
  obtain enabled step where a: "a = (enabled, step)" by (cases a)
  show ?case
    by (cases "if enabled then step d else Inr d") (simp_all add: a Cons)
qed

lemma run_steps_nth_raises:
  assumes "i < length steps" "fst (steps ! i)" "run_steps (take i steps) d = Inr d'"
      and "snd (steps ! i) d' = Inl e"
  shows "run_steps steps d = Inl e"
proof -
  have "steps = take i steps @ (steps ! i) # drop (Suc i) steps"
    using assms(1) by (simp add: id_take_nth_drop)
  then have "run_steps steps d = ebind (run_steps (take i steps) d)
               (run_steps ((steps ! i) # drop (Suc i) steps))"
    using run_steps_append by metis
  also have "\<dots> = run_steps ((steps ! i) # drop (Suc i) steps) d'"
    by (simp add: assms(3))
  also have "\<dots> = Inl e"
    using assms(2,4) by (cases "steps ! i") simp
  finally show ?thesis .
qed

lemma those_names: "those (map name_of xs) = Some ns \<Longrightarrow> xs = map VStr ns"
proof (induction xs arbitrary: ns)
  case Nil
  then show ?case by simp
next
  case (Cons x xs)
  then show ?case
    by (cases x) (auto simp: name_of_def split: option.splits)
qed

lemma names_of_param_iter: "names_of_param v = Some ns \<Longrightarrow> py_iter v = Inr (map VStr ns)"
  by (cases v) (auto simp: names_of_param_def dest: those_names)

lemma select_comprehension_names:
  "distinct ns \<Longrightarrow> set ns \<inter> fst ` set acc = {} \<Longrightarrow>
   select_comprehension d (map VStr ns) acc =
     (case those (map (\<lambda>n. map_option (Pair n) (map_of d n)) ns) of
        None \<Rightarrow> Inl KeyError
      | Some selected \<Rightarrow> Inr (acc @ selected))"
proof (induction ns arbitrary: acc)
  case Nil
  then show ?case by simp
next
  case (Cons n ns)
  show ?case
  proof (cases "map_of d n")
    case None
    then show ?thesis by (simp add: dict_getitem_def)
  next
    case (Some v)
    from Cons.prems have fresh: "n \<notin> fst ` set acc" by auto
    from Cons.prems have "distinct ns" "set ns \<inter> fst ` set (acc @ [(n, v)]) = {}" by auto
    from Cons.IH [OF this] show ?thesis
      by (simp add: Some dict_getitem_def dict_setitem_fresh [OF fresh] split: option.splits)
  qed
qed

lemma those_all_keys:
  assumes "distinct (map fst d)"
  shows "set es \<subseteq> set d \<Longrightarrow>
         those (map (\<lambda>n. map_option (Pair n) (map_of d n)) (map fst es)) = Some es"
proof (induction es)
  case Nil
  then show ?case by simp
next
  case (Cons e es)
  obtain k v where e: "e = (k, v)" by (cases e)
  from Cons.prems have "(k, v) \<in> set d" by (simp add: e)
  with assms have "map_of d k = Some v" by (rule map_of_is_SomeI)
  with Cons show ?case by (simp add: e)
qed

lemma ensemble_select_phases_spec:
  assumes "distinct (map fst phases)"
      and "suitable_params n True a (Some ps)"
  shows "ensemble_select_phases (Some ps) phases =
         (case selected_names (Some ps) of
            None \<Rightarrow> Inr phases
          | Some names \<Rightarrow> spec_select_phases names phases)"
proof (cases "map_of ps ''select_phases''")
  case None
  have all: "those (map (\<lambda>n. map_option (Pair n) (map_of phases n)) (map fst phases)) = Some phases"
    by (rule those_all_keys [OF assms(1)]) simp
  have "select_comprehension phases (map VStr (map fst phases)) [] =
        (case those (map (\<lambda>n. map_option (Pair n) (map_of phases n)) (map fst phases)) of
           None \<Rightarrow> Inl KeyError
         | Some selected \<Rightarrow> Inr ([] @ selected))"
    by (rule select_comprehension_names) (use assms(1) in simp_all)
  then have "select_comprehension phases (map VStr (map fst phases)) [] = Inr phases"
    by (simp only: all option.case append_Nil)
  moreover have "map VStr (map fst phases) = map (\<lambda>kv. VStr (fst kv)) phases"
    by simp
  ultimately have "select_comprehension phases (map (\<lambda>kv. VStr (fst kv)) phases) [] = Inr phases"
    by metis
  then show ?thesis
    by (simp add: ensemble_select_phases_def selected_names_def None dict_keys_def
          params_get_def)
next
  case (Some v)
  with assms(2) obtain ns where ns: "names_of_param v = Some ns" "distinct ns"
    by (auto simp: suitable_params_def split: option.splits)
  show ?thesis
    using select_comprehension_names [OF ns(2), of "[]" phases]
    by (simp add: ensemble_select_phases_def selected_names_def Some param_or_def ns(1)
          names_of_param_iter [OF ns(1)] spec_select_phases_def split: option.splits)
qed

lemma run_steps_Nil_fun: "run_steps [] = Inr"
  by (rule ext) simp

lemma run_steps_Cons_fun:
  "run_steps ((enabled, step) # steps) =
   (\<lambda>d. ebind (if enabled then step d else Inr d) (run_steps steps))"
  by (rule ext) simp

lemmas run_steps_fun = run_steps_Nil_fun run_steps_Cons_fun

lemma param_of_Some [simp]: "param_of (Some ps) k dflt = param_or ps k dflt"
  by (simp add: param_of_def)

lemma param_of_None [simp]: "param_of None k dflt = dflt"
  by (simp add: param_of_def)

lemma ensemble_tail:
  assumes keys: "distinct (map fst phases)"
      and ok: "suitable_params n s a params"
  shows "ebind (if s then ensemble_select_phases params phases else Inr phases) (\<lambda>d5.
         ebind (if c then cut_phases_to_shortest E (VDict d5) else Inr (VDict d5)) (\<lambda>d6.
         ebind (if m then merge_study_data_dict E d6 else Inr d6) (\<lambda>d7.
         (if a then
            ebind (params_get params ''add_conditions'' VNone) (\<lambda>param.
            split_subject_conditions E d7 param)
          else Inr d7)))) =
         run_steps (drop 3 (hr_ensemble_steps E r n s c m a params)) (VDict phases)"
proof (cases params)
  case None
  with ok have off: "\<not> s" "\<not> a" by (simp_all add: suitable_params_def)
  show ?thesis
    by (simp add: hr_ensemble_steps_def off None run_steps_fun split del: if_split cong: if_cong)
next
  case (Some ps)
  show ?thesis
  proof (cases s)
    case True
    from ok have "suitable_params n True a (Some ps)" by (simp add: True Some)
    from ensemble_select_phases_spec [OF keys this] show ?thesis
      by (cases "selected_names (Some ps)")
         (simp_all add: hr_ensemble_steps_def Some True ebind_assoc run_steps_fun
            split del: if_split cong: if_cong)
  next
    case False
    then show ?thesis
      by (simp add: hr_ensemble_steps_def Some run_steps_fun split del: if_split cong: if_cong)
  qed
qed

lemma hr_ensemble_pipeline_steps:
  assumes present: "map_of (hr_data p) (study_part_or_default study_part) = Some d0"
      and copy: "py_copy d0 = Inr d"
      and ok: "suitable_params n s a params"
      and keys: "\<forall>x phases. rearrange_subject_data_dict E x = Inr phases \<longrightarrow> distinct (map fst phases)"
  shows "hr_ensemble_pipeline E p study_part r n s c m a params =
         run_steps (hr_ensemble_steps E r n s c m a params) d"
proof -
  have normalize: "(if n then ebind (params_get params ''normalize_to'' VNone) (normalize_to_phase E x)
                    else Inr x) =
                   (if n then normalize_to_phase E x (param_of params ''normalize_to'' VNone) else Inr x)"
    for x
    using ok by (cases params) (simp_all add: suitable_params_def)
  have spec: "run_steps (hr_ensemble_steps E r n s c m a params) d =
      ebind (if r then resample_dict_sec E d else Inr d) (\<lambda>d2.
      ebind (if n then normalize_to_phase E d2 (param_of params ''normalize_to'' VNone) else Inr d2) (\<lambda>d3.
      ebind (rearrange_subject_data_dict E d3) (\<lambda>phases.
      run_steps (drop 3 (hr_ensemble_steps E r n s c m a params)) (VDict phases))))"
    by (simp add: hr_ensemble_steps_def ebind_assoc run_steps_fun split del: if_split cong: if_cong)
  have code: "hr_ensemble_pipeline E p study_part r n s c m a params =
      ebind (if r then resample_dict_sec E d else Inr d) (\<lambda>d2.
      ebind (if n then normalize_to_phase E d2 (param_of params ''normalize_to'' VNone) else Inr d2) (\<lambda>d3.
      ebind (rearrange_subject_data_dict E d3) (\<lambda>phases.
      ebind (if s then ensemble_select_phases params phases else Inr phases) (\<lambda>d5.
      ebind (if c then cut_phases_to_shortest E (VDict d5) else Inr (VDict d5)) (\<lambda>d6.
      ebind (if m then merge_study_data_dict E d6 else Inr d6) (\<lambda>d7.
      (if a then
         ebind (params_get params ''add_conditions'' VNone) (\<lambda>param.
         split_subject_conditions E d7 param)
       else Inr d7)))))))"
    unfolding hr_ensemble_pipeline_def
    using present copy by (simp add: dict_getitem_def normalize split del: if_split cong: if_cong)
  show ?thesis
    unfolding spec code
    apply (rule ebind_cong [OF refl])
    apply (rule ebind_cong [OF refl])
    apply (rule ebind_cong [OF refl])
    apply (rule ensemble_tail [OF _ ok])
    using keys apply blast
    done
qed

lemma hrv_results_pipeline_steps:
  assumes present: "map_of (rpeak_data p) (study_part_or_default study_part) = Some d0"
      and copy: "py_copy d0 = Inr d"
  shows "hrv_results_pipeline E p study_part s sb a dict_levels hrv_params params =
         run_steps (hrv_results_steps E s sb a (default_dict_levels dict_levels sb)
                      (case hrv_params of None \<Rightarrow> [] | Some hp \<Rightarrow> hp) params) d"
proof -
  have "hrv_results_pipeline E p study_part s sb a dict_levels hrv_params (Some ps) =
         run_steps (hrv_results_steps E s sb a (default_dict_levels dict_levels sb)
                      (case hrv_params of None \<Rightarrow> [] | Some hp \<Rightarrow> hp) (Some ps)) d" for ps
    unfolding hrv_results_pipeline_def hrv_dropped_def hrv_working_data_def hrv_results_steps_def
    using present copy
    by (cases s; cases sb; cases a) (simp_all add: dict_getitem_def ebind_assoc run_steps_fun)
  moreover have "hrv_results_steps E s sb a lv hp None = hrv_results_steps E s sb a lv hp (Some [])"
    for lv hp
    by (simp add: hrv_results_steps_def param_or_def)
  ultimately show ?thesis
    by (cases params) (simp_all add: hrv_results_pipeline_None)
qed

lemma step_raises_run_steps: "step_raises steps d i e \<Longrightarrow> run_steps steps d = Inl e"
  unfolding step_raises_def
  by (cases "run_steps (take i steps) d") (auto intro: run_steps_nth_raises)

lemma run_steps_Inl_step_raises: "run_steps steps d = Inl e \<Longrightarrow> \<exists>i. step_raises steps d i e"
proof (induction steps arbitrary: d)
  case Nil
  then show ?case by simp
next
  case (Cons a steps)
  obtain enabled step where a: "a = (enabled, step)" by (cases a)
  show ?case
  proof (cases "if enabled then step d else Inr d")
    case (Inl e')
    with Cons.prems have "e' = e" "enabled" "step d = Inl e"
      by (auto simp: a split: if_splits)
    then have "step_raises (a # steps) d 0 e"
      by (simp add: step_raises_def a)
    then show ?thesis ..
  next
    case (Inr d1)
    with Cons.prems have "run_steps steps d1 = Inl e" by (simp add: a)
    from Cons.IH [OF this] obtain i where "step_raises steps d1 i e" ..
    then have "step_raises (a # steps) d (Suc i) e"
      using Inr by (simp add: step_raises_def a split: sum.splits)
    then show ?thesis ..
  qed
qed

lemma no_step_raises: "(\<forall>i e. \<not> step_raises steps d i e) \<longleftrightarrow> (\<exists>res. run_steps steps d = Inr res)"
proof
  assume none: "\<forall>i e. \<not> step_raises steps d i e"
  show "\<exists>res. run_steps steps d = Inr res"
  proof (cases "run_steps steps d")
    case (Inl e)
    from run_steps_Inl_step_raises [OF this] none show ?thesis by blast
  next
    case (Inr res)
    then show ?thesis by blast
  qed
next
  assume "\<exists>res. run_steps steps d = Inr res"
  then show "\<forall>i e. \<not> step_raises steps d i e"
    by (auto dest: step_raises_run_steps)
qed

text \<open>
  Claim C7. For a study part that is present in \<^verbatim>\<open>hr_data\<close>, every combination of the six
  switches and suitable parameters (a parameter dictionary whenever a step that reads it is on,
  which includes no dictionary at all when none is; the phases to select a list of distinct
  names), if the steps resample, normalize, rearrange, select phases, cut to shortest, merge
  subjects, add conditions, applied in this order with the rearrangement always on and the
  disabled steps passing the data on unchanged, give a result, then \<^verbatim>\<open>compute_hr_ensemble\<close>
  returns and stores exactly that result under \<^verbatim>\<open>ensemble_id\<close>. The selection of the method
  (lines 688 to 690) is compared with the selection as the specification words it; the
  rearrangement returns a dictionary, whose keys are distinct.
\<close>

theorem compute_hr_ensemble_fixed_order:
  assumes present: "map_of (hr_data p) (study_part_or_default study_part) = Some (VDict dd)"
      and ok: "suitable_params normalize_to select_phases add_conditions params"
      and keys: "\<forall>x phases. rearrange_subject_data_dict E x = Inr phases \<longrightarrow> distinct (map fst phases)"
      and run: "run_steps
             (hr_ensemble_steps E resample_sec normalize_to select_phases cut_phases merge_dict
                add_conditions params)
             (VDict dd) = Inr res"
  shows "compute_hr_ensemble E p ensemble_id study_part resample_sec normalize_to select_phases
           cut_phases merge_dict add_conditions params =
         (None, p\<lparr>hr_ensemble := dict_setitem (hr_ensemble p) ensemble_id res\<rparr>)
       \<and> map_of (hr_ensemble (snd (compute_hr_ensemble E p ensemble_id study_part resample_sec
              normalize_to select_phases cut_phases merge_dict add_conditions params)))
            ensemble_id = Some res"
proof -
  have copy: "py_copy (VDict dd) = Inr (VDict dd)" by simp
  have "hr_ensemble_pipeline E p study_part resample_sec normalize_to select_phases cut_phases
          merge_dict add_conditions params = Inr res"
    using hr_ensemble_pipeline_steps [OF present copy ok keys] run by simp
  then show ?thesis by (simp add: compute_hr_ensemble_def)
qed

theorem compute_hr_ensemble_fixed_order_witness:
  "compute_hr_ensemble phases_ext sample_protocol ''e'' None True False True False True False
     (Some [(''select_phases'', VList [VStr ''Stress''])]) =
   (None, sample_protocol\<lparr>hr_ensemble :=
      [(''e'', traced ''merge''
          [VDict [(''Stress'',
             traced ''Stress'' [traced ''resample'' [VDict [(''Vp01'', VDict [])]]])]])]\<rparr>)
   \<and> compute_hr_ensemble phases_ext sample_protocol ''e'' None True False False True True False
       None =
   (None, sample_protocol\<lparr>hr_ensemble :=
      [(''e'', traced ''merge'' [traced ''cut''
          [VDict [(''Baseline'',
                     traced ''Baseline'' [traced ''resample'' [VDict [(''Vp01'', VDict [])]]]),
                  (''Stress'',
                     traced ''Stress'' [traced ''resample'' [VDict [(''Vp01'', VDict [])]]])]]])]\<rparr>)"
proof -
  have present: "map_of (hr_data sample_protocol) (study_part_or_default None) =
                 Some (VDict [(''Vp01'', VDict [])])"
    by (simp add: sample_protocol_def init_protocol_def study_part_or_default_def)
  have keys: "\<forall>x phases. rearrange_subject_data_dict phases_ext x = Inr phases \<longrightarrow>
                distinct (map fst phases)"
    by (auto simp: phases_ext_def)
  have ok1: "suitable_params False True False (Some [(''select_phases'', VList [VStr ''Stress''])])"
    by (simp add: suitable_params_def names_of_param_def name_of_def)
  have ok2: "suitable_params False False False (None :: unit pydict option)"
    by (simp add: suitable_params_def)
  have steps1: "run_steps
      (hr_ensemble_steps phases_ext True False True False True False
         (Some [(''select_phases'', VList [VStr ''Stress''])]))
      (VDict [(''Vp01'', VDict [])]) =
    Inr (traced ''merge''
          [VDict [(''Stress'',
             traced ''Stress'' [traced ''resample'' [VDict [(''Vp01'', VDict [])]]])]])"
    by (simp add: hr_ensemble_steps_def phases_ext_def sample_ext_def selected_names_def
          names_of_param_def name_of_def spec_select_phases_def)
  have steps2: "run_steps
      (hr_ensemble_steps phases_ext True False False True True False None)
      (VDict [(''Vp01'', VDict [])]) =
    Inr (traced ''merge'' [traced ''cut''
          [VDict [(''Baseline'',
                     traced ''Baseline'' [traced ''resample'' [VDict [(''Vp01'', VDict [])]]]),
                  (''Stress'',
                     traced ''Stress'' [traced ''resample'' [VDict [(''Vp01'', VDict [])]]])]]])"
    by (simp add: hr_ensemble_steps_def phases_ext_def sample_ext_def)
  have stored: "dict_setitem (hr_ensemble sample_protocol) ''e'' v = [(''e'', v)]" for v
    by (simp add: sample_protocol_def init_protocol_def dict_setitem_def)
  show ?thesis
    using compute_hr_ensemble_fixed_order [OF present ok1 keys steps1, of "''e''"]
      compute_hr_ensemble_fixed_order [OF present ok2 keys steps2, of "''e''"]
    by (simp add: stored)
qed

lemma hr_results_pipeline_no_data:
  "map_of (hr_data p) (study_part_or_default study_part) = None \<Longrightarrow>
   hr_results_pipeline E p study_part r n s sp m a params = Inl KeyError"
  "map_of (hr_data p) (study_part_or_default study_part) = Some d0 \<Longrightarrow> py_copy d0 = Inl e \<Longrightarrow>
   hr_results_pipeline E p study_part r n s sp m a params = Inl e"
  by (cases params; simp add: hr_results_pipeline_def dict_getitem_def)+

lemma hr_ensemble_pipeline_no_data:
  "map_of (hr_data p) (study_part_or_default study_part) = None \<Longrightarrow>
   hr_ensemble_pipeline E p study_part r n s c m a params = Inl KeyError"
  "map_of (hr_data p) (study_part_or_default study_part) = Some d0 \<Longrightarrow> py_copy d0 = Inl e \<Longrightarrow>
   hr_ensemble_pipeline E p study_part r n s c m a params = Inl e"
  by (simp_all add: hr_ensemble_pipeline_def dict_getitem_def)

lemma hrv_results_pipeline_no_data:
  "map_of (rpeak_data p) (study_part_or_default study_part) = None \<Longrightarrow>
   hrv_results_pipeline E p study_part s sb a dict_levels hrv_params params = Inl KeyError"
  "map_of (rpeak_data p) (study_part_or_default study_part) = Some d0 \<Longrightarrow> py_copy d0 = Inl e \<Longrightarrow>
   hrv_results_pipeline E p study_part s sb a dict_levels hrv_params params = Inl e"
  by (cases params;
      simp add: hrv_results_pipeline_def hrv_dropped_def hrv_working_data_def dict_getitem_def)+

lemma hr_ensemble_pipeline_statements:
  assumes "map_of (hr_data p) (study_part_or_default study_part) = Some d0"
      and "py_copy d0 = Inr d"
  shows "hr_ensemble_pipeline E p study_part r n s c m a params =
         run_steps (hr_ensemble_statements E r n s c m a params) d"
  unfolding hr_ensemble_pipeline_def hr_ensemble_statements_def
  using assms
  by (cases s) (simp_all add: dict_getitem_def ebind_assoc run_steps_fun cong: if_cong)

text \<open>
  Claim C2. Each of the three \<^verbatim>\<open>compute\<close> methods reads its data (the entry of the study
  part, and a copy of it) and then runs its processing steps in order. If the entry is
  missing, if it cannot be copied, or if a step that is switched on raises on the data that
  the steps before it give, the call raises that error and leaves the whole object, and so
  the cache, as it was. If no step raises, the steps give a result, and the call returns and
  changes the object in the one cache entry under the given identifier, which holds that
  result. The steps of \<^verbatim>\<open>compute_hr_ensemble\<close> are its statements, so that reading a parameter
  from no parameter dictionary is a step that raises.
\<close>

theorem compute_all_or_nothing:
  "(map_of (hr_data p) (study_part_or_default study_part) = None \<longrightarrow>
      compute_hr_results E p result_id study_part resample_sec normalize_to select_phases
        split_into_subphases mean_per_subject add_conditions params = (Some KeyError, p))
 \<and> (map_of (hr_data p) (study_part_or_default study_part) = Some entry \<and> py_copy entry = Inl e \<longrightarrow>
      compute_hr_results E p result_id study_part resample_sec normalize_to select_phases
        split_into_subphases mean_per_subject add_conditions params = (Some e, p))
 \<and> (map_of (hr_data p) (study_part_or_default study_part) = Some entry \<and>
    py_copy entry = Inr copied \<and>
    step_raises
      (hr_results_steps E resample_sec normalize_to select_phases split_into_subphases
         mean_per_subject add_conditions (case params of None \<Rightarrow> [] | Some ps \<Rightarrow> ps)) copied i e \<longrightarrow>
      compute_hr_results E p result_id study_part resample_sec normalize_to select_phases
        split_into_subphases mean_per_subject add_conditions params = (Some e, p))
 \<and> (map_of (hr_data p) (study_part_or_default study_part) = Some entry \<and>
    py_copy entry = Inr copied \<and>
    (\<forall>j e'. \<not> step_raises
      (hr_results_steps E resample_sec normalize_to select_phases split_into_subphases
         mean_per_subject add_conditions (case params of None \<Rightarrow> [] | Some ps \<Rightarrow> ps)) copied j e') \<longrightarrow>
      (\<exists>res. run_steps
         (hr_results_steps E resample_sec normalize_to select_phases split_into_subphases
            mean_per_subject add_conditions (case params of None \<Rightarrow> [] | Some ps \<Rightarrow> ps)) copied =
         Inr res
       \<and> compute_hr_results E p result_id study_part resample_sec normalize_to select_phases
           split_into_subphases mean_per_subject add_conditions params =
         (None, p\<lparr>hr_results := dict_setitem (hr_results p) result_id res\<rparr>)))
 \<and> (map_of (rpeak_data p) (study_part_or_default study_part) = None \<longrightarrow>
      compute_hrv_results E p result_id study_part select_phases split_into_subphases
        add_conditions dict_levels hrv_params params = (Some KeyError, p))
 \<and> (map_of (rpeak_data p) (study_part_or_default study_part) = Some entry \<and> py_copy entry = Inl e \<longrightarrow>
      compute_hrv_results E p result_id study_part select_phases split_into_subphases
        add_conditions dict_levels hrv_params params = (Some e, p))
 \<and> (map_of (rpeak_data p) (study_part_or_default study_part) = Some entry \<and>
    py_copy entry = Inr copied \<and>
    step_raises
      (hrv_results_steps E select_phases split_into_subphases add_conditions
         (default_dict_levels dict_levels split_into_subphases)
         (case hrv_params of None \<Rightarrow> [] | Some hp \<Rightarrow> hp) params) copied i e \<longrightarrow>
      compute_hrv_results E p result_id study_part select_phases split_into_subphases
        add_conditions dict_levels hrv_params params = (Some e, p))
 \<and> (map_of (rpeak_data p) (study_part_or_default study_part) = Some entry \<and>
    py_copy entry = Inr copied \<and>
    (\<forall>j e'. \<not> step_raises
      (hrv_results_steps E select_phases split_into_subphases add_conditions
         (default_dict_levels dict_levels split_into_subphases)
         (case hrv_params of None \<Rightarrow> [] | Some hp \<Rightarrow> hp) params) copied j e') \<longrightarrow>
      (\<exists>res. run_steps
         (hrv_results_steps E select_phases split_into_subphases add_conditions
            (default_dict_levels dict_levels split_into_subphases)
            (case hrv_params of None \<Rightarrow> [] | Some hp \<Rightarrow> hp) params) copied =
         Inr res
       \<and> compute_hrv_results E p result_id study_part select_phases split_into_subphases
           add_conditions dict_levels hrv_params params =
         (None, p\<lparr>hrv_results := dict_setitem (hrv_results p) result_id res\<rparr>)))
 \<and> (map_of (hr_data p) (study_part_or_default study_part) = None \<longrightarrow>
      compute_hr_ensemble E p result_id study_part resample_sec normalize_to select_phases
        cut_phases merge_dict add_conditions params = (Some KeyError, p))
 \<and> (map_of (hr_data p) (study_part_or_default study_part) = Some entry \<and> py_copy entry = Inl e \<longrightarrow>
      compute_hr_ensemble E p result_id study_part resample_sec normalize_to select_phases
        cut_phases merge_dict add_conditions params = (Some e, p))
 \<and> (map_of (hr_data p) (study_part_or_default study_part) = Some entry \<and>
    py_copy entry = Inr copied \<and>
    step_raises
      (hr_ensemble_statements E resample_sec normalize_to select_phases cut_phases merge_dict
         add_conditions params) copied i e \<longrightarrow>
      compute_hr_ensemble E p result_id study_part resample_sec normalize_to select_phases
        cut_phases merge_dict add_conditions params = (Some e, p))
 \<and> (map_of (hr_data p) (study_part_or_default study_part) = Some entry \<and>
    py_copy entry = Inr copied \<and>
    (\<forall>j e'. \<not> step_raises
      (hr_ensemble_statements E resample_sec normalize_to select_phases cut_phases merge_dict
         add_conditions params) copied j e') \<longrightarrow>
      (\<exists>res. run_steps
         (hr_ensemble_statements E resample_sec normalize_to select_phases cut_phases merge_dict
            add_conditions params) copied =
         Inr res
       \<and> compute_hr_ensemble E p result_id study_part resample_sec normalize_to select_phases
           cut_phases merge_dict add_conditions params =
         (None, p\<lparr>hr_ensemble := dict_setitem (hr_ensemble p) result_id res\<rparr>)))"
proof -
  have raised: "compute_hr_results E p result_id study_part resample_sec normalize_to
      select_phases split_into_subphases mean_per_subject add_conditions params = (Some x, p)"
    if "hr_results_pipeline E p study_part resample_sec normalize_to select_phases
      split_into_subphases mean_per_subject add_conditions params = Inl x" for x
    using that by (simp add: compute_hr_results_def)
  have stored: "compute_hr_results E p result_id study_part resample_sec normalize_to
      select_phases split_into_subphases mean_per_subject add_conditions params =
      (None, p\<lparr>hr_results := dict_setitem (hr_results p) result_id res\<rparr>)"
    if "hr_results_pipeline E p study_part resample_sec normalize_to select_phases
      split_into_subphases mean_per_subject add_conditions params = Inr res" for res
    using that by (simp add: compute_hr_results_def)
  have hrv_raised: "compute_hrv_results E p result_id study_part select_phases
      split_into_subphases add_conditions dict_levels hrv_params params = (Some x, p)"
    if "hrv_results_pipeline E p study_part select_phases split_into_subphases add_conditions
      dict_levels hrv_params params = Inl x" for x
    using that by (simp add: compute_hrv_results_def)
  have hrv_stored: "compute_hrv_results E p result_id study_part select_phases
      split_into_subphases add_conditions dict_levels hrv_params params =
      (None, p\<lparr>hrv_results := dict_setitem (hrv_results p) result_id res\<rparr>)"
    if "hrv_results_pipeline E p study_part select_phases split_into_subphases add_conditions
      dict_levels hrv_params params = Inr res" for res
    using that by (simp add: compute_hrv_results_def)
  have ens_raised: "compute_hr_ensemble E p result_id study_part resample_sec normalize_to
      select_phases cut_phases merge_dict add_conditions params = (Some x, p)"
    if "hr_ensemble_pipeline E p study_part resample_sec normalize_to select_phases cut_phases
      merge_dict add_conditions params = Inl x" for x
    using that by (simp add: compute_hr_ensemble_def)
  have ens_stored: "compute_hr_ensemble E p result_id study_part resample_sec normalize_to
      select_phases cut_phases merge_dict add_conditions params =
      (None, p\<lparr>hr_ensemble := dict_setitem (hr_ensemble p) result_id res\<rparr>)"
    if "hr_ensemble_pipeline E p study_part resample_sec normalize_to select_phases cut_phases
      merge_dict add_conditions params = Inr res" for res
    using that by (simp add: compute_hr_ensemble_def)
  show ?thesis
  proof (intro conjI impI; (elim conjE)?)
    assume "map_of (hr_data p) (study_part_or_default study_part) = None"
    then show "compute_hr_results E p result_id study_part resample_sec normalize_to
      select_phases split_into_subphases mean_per_subject add_conditions params =
      (Some KeyError, p)"
      by (intro raised hr_results_pipeline_no_data)
  next
    assume "map_of (hr_data p) (study_part_or_default study_part) = Some entry" "py_copy entry = Inl e"
    then show "compute_hr_results E p result_id study_part resample_sec normalize_to
      select_phases split_into_subphases mean_per_subject add_conditions params = (Some e, p)"
      by (intro raised hr_results_pipeline_no_data)
  next
    assume "map_of (hr_data p) (study_part_or_default study_part) = Some entry"
      "py_copy entry = Inr copied"
      and "step_raises
        (hr_results_steps E resample_sec normalize_to select_phases split_into_subphases
           mean_per_subject add_conditions (case params of None \<Rightarrow> [] | Some ps \<Rightarrow> ps)) copied i e"
    then show "compute_hr_results E p result_id study_part resample_sec normalize_to
      select_phases split_into_subphases mean_per_subject add_conditions params = (Some e, p)"
      by (intro raised) (simp add: hr_results_pipeline_steps step_raises_run_steps)
  next
    assume data: "map_of (hr_data p) (study_part_or_default study_part) = Some entry"
        "py_copy entry = Inr copied"
      and "\<forall>j e'. \<not> step_raises
        (hr_results_steps E resample_sec normalize_to select_phases split_into_subphases
           mean_per_subject add_conditions (case params of None \<Rightarrow> [] | Some ps \<Rightarrow> ps)) copied j e'"
    then obtain res where res: "run_steps
        (hr_results_steps E resample_sec normalize_to select_phases split_into_subphases
           mean_per_subject add_conditions (case params of None \<Rightarrow> [] | Some ps \<Rightarrow> ps)) copied =
        Inr res"
      unfolding no_step_raises by blast
    then have "compute_hr_results E p result_id study_part resample_sec normalize_to
      select_phases split_into_subphases mean_per_subject add_conditions params =
      (None, p\<lparr>hr_results := dict_setitem (hr_results p) result_id res\<rparr>)"
      by (intro stored) (simp add: hr_results_pipeline_steps [OF data])
    with res show "\<exists>res. run_steps
        (hr_results_steps E resample_sec normalize_to select_phases split_into_subphases
           mean_per_subject add_conditions (case params of None \<Rightarrow> [] | Some ps \<Rightarrow> ps)) copied =
        Inr res
      \<and> compute_hr_results E p result_id study_part resample_sec normalize_to select_phases
          split_into_subphases mean_per_subject add_conditions params =
        (None, p\<lparr>hr_results := dict_setitem (hr_results p) result_id res\<rparr>)"
      by blast
  next
    assume "map_of (rpeak_data p) (study_part_or_default study_part) = None"
    then show "compute_hrv_results E p result_id study_part select_phases split_into_subphases
      add_conditions dict_levels hrv_params params = (Some KeyError, p)"
      by (intro hrv_raised hrv_results_pipeline_no_data)
  next
    assume "map_of (rpeak_data p) (study_part_or_default study_part) = Some entry"
      "py_copy entry = Inl e"
    then show "compute_hrv_results E p result_id study_part select_phases split_into_subphases
      add_conditions dict_levels hrv_params params = (Some e, p)"
      by (intro hrv_raised hrv_results_pipeline_no_data)
  next
    assume "map_of (rpeak_data p) (study_part_or_default study_part) = Some entry"
      "py_copy entry = Inr copied"
      and "step_raises
        (hrv_results_steps E select_phases split_into_subphases add_conditions
           (default_dict_levels dict_levels split_into_subphases)
           (case hrv_params of None \<Rightarrow> [] | Some hp \<Rightarrow> hp) params) copied i e"
    then show "compute_hrv_results E p result_id study_part select_phases split_into_subphases
      add_conditions dict_levels hrv_params params = (Some e, p)"
      by (intro hrv_raised) (simp add: hrv_results_pipeline_steps step_raises_run_steps)
  next
    assume data: "map_of (rpeak_data p) (study_part_or_default study_part) = Some entry"
        "py_copy entry = Inr copied"
      and "\<forall>j e'. \<not> step_raises
        (hrv_results_steps E select_phases split_into_subphases add_conditions
           (default_dict_levels dict_levels split_into_subphases)
           (case hrv_params of None \<Rightarrow> [] | Some hp \<Rightarrow> hp) params) copied j e'"
    then obtain res where res: "run_steps
        (hrv_results_steps E select_phases split_into_subphases add_conditions
           (default_dict_levels dict_levels split_into_subphases)
           (case hrv_params of None \<Rightarrow> [] | Some hp \<Rightarrow> hp) params) copied = Inr res"
      unfolding no_step_raises by blast
    then have "compute_hrv_results E p result_id study_part select_phases split_into_subphases
      add_conditions dict_levels hrv_params params =
      (None, p\<lparr>hrv_results := dict_setitem (hrv_results p) result_id res\<rparr>)"
      by (intro hrv_stored) (simp add: hrv_results_pipeline_steps [OF data])
    with res show "\<exists>res. run_steps
        (hrv_results_steps E select_phases split_into_subphases add_conditions
           (default_dict_levels dict_levels split_into_subphases)
           (case hrv_params of None \<Rightarrow> [] | Some hp \<Rightarrow> hp) params) copied = Inr res
      \<and> compute_hrv_results E p result_id study_part select_phases split_into_subphases
          add_conditions dict_levels hrv_params params =
        (None, p\<lparr>hrv_results := dict_setitem (hrv_results p) result_id res\<rparr>)"
      by blast
  next
    assume "map_of (hr_data p) (study_part_or_default study_part) = None"
    then show "compute_hr_ensemble E p result_id study_part resample_sec normalize_to
      select_phases cut_phases merge_dict add_conditions params = (Some KeyError, p)"
      by (intro ens_raised hr_ensemble_pipeline_no_data)
  next
    assume "map_of (hr_data p) (study_part_or_default study_part) = Some entry" "py_copy entry = Inl e"
    then show "compute_hr_ensemble E p result_id study_part resample_sec normalize_to
      select_phases cut_phases merge_dict add_conditions params = (Some e, p)"
      by (intro ens_raised hr_ensemble_pipeline_no_data)
  next
    assume data: "map_of (hr_data p) (study_part_or_default study_part) = Some entry"
        "py_copy entry = Inr copied"
      and "step_raises
        (hr_ensemble_statements E resample_sec normalize_to select_phases cut_phases merge_dict
           add_conditions params) copied i e"
    then show "compute_hr_ensemble E p result_id study_part resample_sec normalize_to
      select_phases cut_phases merge_dict add_conditions params = (Some e, p)"
      by (intro ens_raised) (simp add: hr_ensemble_pipeline_statements [OF data] step_raises_run_steps)
  next
    assume data: "map_of (hr_data p) (study_part_or_default study_part) = Some entry"
        "py_copy entry = Inr copied"
      and "\<forall>j e'. \<not> step_raises
        (hr_ensemble_statements E resample_sec normalize_to select_phases cut_phases merge_dict
           add_conditions params) copied j e'"
    then obtain res where res: "run_steps
        (hr_ensemble_statements E resample_sec normalize_to select_phases cut_phases merge_dict
           add_conditions params) copied = Inr res"
      unfolding no_step_raises by blast
    then have "compute_hr_ensemble E p result_id study_part resample_sec normalize_to
      select_phases cut_phases merge_dict add_conditions params =
      (None, p\<lparr>hr_ensemble := dict_setitem (hr_ensemble p) result_id res\<rparr>)"
      by (intro ens_stored) (simp add: hr_ensemble_pipeline_statements [OF data])
    with res show "\<exists>res. run_steps
        (hr_ensemble_statements E resample_sec normalize_to select_phases cut_phases merge_dict
           add_conditions params) copied = Inr res
      \<and> compute_hr_ensemble E p result_id study_part resample_sec normalize_to select_phases
          cut_phases merge_dict add_conditions params =
        (None, p\<lparr>hr_ensemble := dict_setitem (hr_ensemble p) result_id res\<rparr>)"
      by blast
  qed
qed

theorem compute_all_or_nothing_witness:
  "compute_hr_results failing_ext sample_protocol ''r'' None True False True False False False
     None = (Some KeyError, sample_protocol)
 \<and> compute_hr_results sample_ext sample_protocol ''r'' None True False False False False False
     None =
   (None, sample_protocol\<lparr>hr_results :=
      [(''old'', VInt 1), (''r'', traced ''resample'' [VDict [(''Vp01'', VDict [])]])]\<rparr>)
 \<and> compute_hr_results sample_ext number_protocol ''r'' None True False False False False False
     None = (Some AttributeError, number_protocol)
 \<and> compute_hrv_results sample_ext sample_protocol ''r'' None False False False None None None =
   (Some KeyError, sample_protocol)
 \<and> compute_hrv_results picky_ext no_peaks_protocol ''r'' None False False False None None None =
   (Some ValueError, no_peaks_protocol)
 \<and> compute_hr_ensemble failing_ext sample_protocol ''r'' None True False False True True False
     None = (Some ValueError, sample_protocol)
 \<and> compute_hr_ensemble sample_ext sample_protocol ''r'' None True False False True True False
     None =
   (None, sample_protocol\<lparr>hr_ensemble :=
      [(''r'', traced ''merge'' [traced ''cut''
         [VDict [(''rearrange'', traced ''resample'' [VDict [(''Vp01'', VDict [])]])]]])]\<rparr>)
 \<and> compute_hr_ensemble sample_ext sample_protocol ''r'' None True True False True True False
     None = (Some AttributeError, sample_protocol)"
proof -
  have present: "map_of (hr_data sample_protocol) (study_part_or_default None) =
                 Some (VDict [(''Vp01'', VDict [])])"
    by (simp add: sample_protocol_def init_protocol_def study_part_or_default_def)
  have copy: "py_copy (VDict [(''Vp01'', VDict [])] :: unit pyval) = Inr (VDict [(''Vp01'', VDict [])])"
    by simp
  have number: "map_of (hr_data number_protocol) (study_part_or_default None) = Some (VInt 3)"
    by (simp add: number_protocol_def sample_protocol_def init_protocol_def
          study_part_or_default_def)
  have no_copy: "py_copy (VInt 3 :: unit pyval) = Inl AttributeError"
    by simp
  have absent: "map_of (rpeak_data sample_protocol) (study_part_or_default None) = None"
    by (simp add: sample_protocol_def init_protocol_def study_part_or_default_def)
  have no_peaks: "map_of (rpeak_data no_peaks_protocol) (study_part_or_default None) =
      Some (VDict [(''Vp01'', VDict [(''Stress'',
          VFrame \<lparr> index_names = [None], columns = [''R_Peak_Idx''], rows = [] \<rparr>)])])"
    by (simp add: no_peaks_protocol_def sample_protocol_def init_protocol_def
          study_part_or_default_def)
  have copy_peaks: "py_copy (VDict [(''Vp01'', VDict [(''Stress'',
          VFrame \<lparr> index_names = [None], columns = [''R_Peak_Idx''], rows = [] \<rparr>)])] :: unit pyval) =
      Inr (VDict [(''Vp01'', VDict [(''Stress'',
          VFrame \<lparr> index_names = [None], columns = [''R_Peak_Idx''], rows = [] \<rparr>)])])"
    by simp
  have select_raises: "step_raises
      (hr_results_steps failing_ext True False True False False False
         (case None of None \<Rightarrow> [] | Some ps \<Rightarrow> ps))
      (VDict [(''Vp01'', VDict [])]) 2 KeyError"
    by code_simp
  have hrv_raises: "step_raises
      (hrv_results_steps picky_ext False False False (default_dict_levels None False)
         (case None of None \<Rightarrow> [] | Some hp \<Rightarrow> hp) None)
      (VDict [(''Vp01'', VDict [(''Stress'',
          VFrame \<lparr> index_names = [None], columns = [''R_Peak_Idx''], rows = [] \<rparr>)])]) 2 ValueError"
    by code_simp
  have cut_raises: "step_raises
      (hr_ensemble_statements failing_ext True False False True True False None)
      (VDict [(''Vp01'', VDict [])]) 4 ValueError"
    by code_simp
  have get_raises: "step_raises
      (hr_ensemble_statements sample_ext True True False True True False None)
      (VDict [(''Vp01'', VDict [])]) 1 AttributeError"
    by code_simp
  have run: "run_steps
      (hr_results_steps sample_ext True False False False False False
         (case None of None \<Rightarrow> [] | Some ps \<Rightarrow> ps))
      (VDict [(''Vp01'', VDict [])]) = Inr (traced ''resample'' [VDict [(''Vp01'', VDict [])]])"
    by (simp add: hr_results_steps_def sample_ext_def)
  have none: "\<forall>j e'. \<not> step_raises
      (hr_results_steps sample_ext True False False False False False
         (case None of None \<Rightarrow> [] | Some ps \<Rightarrow> ps))
      (VDict [(''Vp01'', VDict [])]) j e'"
    by (rule no_step_raises [THEN iffD2], rule exI, rule run)
  have ens_run: "run_steps
      (hr_ensemble_statements sample_ext True False False True True False None)
      (VDict [(''Vp01'', VDict [])]) =
      Inr (traced ''merge'' [traced ''cut''
         [VDict [(''rearrange'', traced ''resample'' [VDict [(''Vp01'', VDict [])]])]]])"
    by (simp add: hr_ensemble_statements_def sample_ext_def)
  have ens_none: "\<forall>j e'. \<not> step_raises
      (hr_ensemble_statements sample_ext True False False True True False None)
      (VDict [(''Vp01'', VDict [])]) j e'"
    by (rule no_step_raises [THEN iffD2], rule exI, rule ens_run)
  have stored: "dict_setitem (hr_results sample_protocol) ''r'' v = [(''old'', VInt 1), (''r'', v)]"
       "dict_setitem (hr_ensemble sample_protocol) ''r'' v = [(''r'', v)]" for v
    by (simp_all add: sample_protocol_def init_protocol_def dict_setitem_def)
  have 1: "compute_hr_results failing_ext sample_protocol ''r'' None True False True False False
     False None = (Some KeyError, sample_protocol)"
    using compute_all_or_nothing [where E = failing_ext and p = sample_protocol
        and study_part = None and params = None and i = 2 and e = KeyError
        and entry = "VDict [(''Vp01'', VDict [])]" and copied = "VDict [(''Vp01'', VDict [])]"
        and resample_sec = True and normalize_to = False and select_phases = True
        and split_into_subphases = False and mean_per_subject = False
        and add_conditions = False and result_id = "''r''"]
      present copy select_raises
    by simp
  have 2: "compute_hr_results sample_ext sample_protocol ''r'' None True False False False False
     False None =
   (None, sample_protocol\<lparr>hr_results :=
      [(''old'', VInt 1), (''r'', traced ''resample'' [VDict [(''Vp01'', VDict [])]])]\<rparr>)"
    using compute_all_or_nothing [where E = sample_ext and p = sample_protocol
        and study_part = None and params = None
        and entry = "VDict [(''Vp01'', VDict [])]" and copied = "VDict [(''Vp01'', VDict [])]"
        and resample_sec = True and normalize_to = False and select_phases = False
        and split_into_subphases = False and mean_per_subject = False
        and add_conditions = False and result_id = "''r''"]
      present copy none run
    by (simp add: stored)
  have 3: "compute_hr_results sample_ext number_protocol ''r'' None True False False False False
     False None = (Some AttributeError, number_protocol)"
    using compute_all_or_nothing [where E = sample_ext and p = number_protocol
        and study_part = None and params = None and e = AttributeError and entry = "VInt 3"
        and resample_sec = True and normalize_to = False and select_phases = False
        and split_into_subphases = False and mean_per_subject = False
        and add_conditions = False and result_id = "''r''"]
      number no_copy
    by simp
  have 4: "compute_hrv_results sample_ext sample_protocol ''r'' None False False False None None
     None = (Some KeyError, sample_protocol)"
    using compute_all_or_nothing [where E = sample_ext and p = sample_protocol
        and study_part = None and params = None and select_phases = False
        and split_into_subphases = False and add_conditions = False and result_id = "''r''"
        and dict_levels = None and hrv_params = None]
      absent
    by simp
  have 5: "compute_hrv_results picky_ext no_peaks_protocol ''r'' None False False False None None
     None = (Some ValueError, no_peaks_protocol)"
    using compute_all_or_nothing [where E = picky_ext and p = no_peaks_protocol
        and study_part = None and params = None and select_phases = False
        and split_into_subphases = False and add_conditions = False and result_id = "''r''"
        and dict_levels = None and hrv_params = None and i = 2 and e = ValueError
        and entry = "VDict [(''Vp01'', VDict [(''Stress'',
          VFrame \<lparr> index_names = [None], columns = [''R_Peak_Idx''], rows = [] \<rparr>)])]"
        and copied = "VDict [(''Vp01'', VDict [(''Stress'',
          VFrame \<lparr> index_names = [None], columns = [''R_Peak_Idx''], rows = [] \<rparr>)])]"]
      no_peaks copy_peaks hrv_raises
    by simp
  have 6: "compute_hr_ensemble failing_ext sample_protocol ''r'' None True False False True True
     False None = (Some ValueError, sample_protocol)"
    using compute_all_or_nothing [where E = failing_ext and p = sample_protocol
        and study_part = None and params = None and i = 4 and e = ValueError
        and entry = "VDict [(''Vp01'', VDict [])]" and copied = "VDict [(''Vp01'', VDict [])]"
        and resample_sec = True and normalize_to = False and select_phases = False
        and cut_phases = True and merge_dict = True
        and add_conditions = False and result_id = "''r''"]
      present copy cut_raises
    by simp
  have 7: "compute_hr_ensemble sample_ext sample_protocol ''r'' None True False False True True
     False None =
   (None, sample_protocol\<lparr>hr_ensemble :=
      [(''r'', traced ''merge'' [traced ''cut''
         [VDict [(''rearrange'', traced ''resample'' [VDict [(''Vp01'', VDict [])]])]]])]\<rparr>)"
    using compute_all_or_nothing [where E = sample_ext and p = sample_protocol
        and study_part = None and params = None
        and entry = "VDict [(''Vp01'', VDict [])]" and copied = "VDict [(''Vp01'', VDict [])]"
        and resample_sec = True and normalize_to = False and select_phases = False
        and cut_phases = True and merge_dict = True
        and add_conditions = False and result_id = "''r''"]
      present copy ens_none ens_run
    by (simp add: stored)
  have 8: "compute_hr_ensemble sample_ext sample_protocol ''r'' None True True False True True
     False None = (Some AttributeError, sample_protocol)"
    using compute_all_or_nothing [where E = sample_ext and p = sample_protocol
        and study_part = None and params = None and i = 1 and e = AttributeError
        and entry = "VDict [(''Vp01'', VDict [])]" and copied = "VDict [(''Vp01'', VDict [])]"
        and resample_sec = True and normalize_to = True and select_phases = False
        and cut_phases = True and merge_dict = True
        and add_conditions = False and result_id = "''r''"]
      present copy get_raises
    by simp
  from 1 2 3 4 5 6 7 8 show ?thesis by blast
qed

end
